theory Spec2Isabelle
  imports Complex_Main "HOL-Library.AList"
begin

section \<open>JavaScript values used by the sources\<close>

text \<open>
  Conventions of the embedding.
  \<^item> A JavaScript \<open>number\<close> that the sources use as a count, a slot, a unix time or a raw
    token balance is an \<open>int\<close> (or a \<open>nat\<close> for a length); the decimal-adjusted
    \<open>tokenAmount\<close> and the SOL amounts are \<open>real\<close>.
  \<^item> An optional field \<open>f?: T\<close> and a \<open>T | null\<close> are \<open>T option\<close>.
  \<^item> A thrown value is a \<open>js_exn\<close>; a call that may throw returns \<open>js_exn + 'a\<close>.
  \<^item> Where two interfaces of the sources share a field name, the less central one carries
    a suffix (\<open>_h\<close> for the provider's raw transaction, \<open>_t\<close> for a token transfer).
\<close>

type_synonym json = string

datatype js_exn =
    Error string   \<comment> \<open>an instance of \<open>Error\<close>, with its \<open>message\<close>\<close>
  | Thrown json    \<comment> \<open>any other thrown value\<close>

text \<open>\<open>error instanceof Error ? error.message : fallback\<close>\<close>

definition errorMessage :: "js_exn \<Rightarrow> string \<Rightarrow> string" where
  "errorMessage e fallback = (case e of Error m \<Rightarrow> m | Thrown _ \<Rightarrow> fallback)"

text \<open>\<open>a || b\<close> on strings: the empty string is falsy, as is a missing value.\<close>

definition str_or :: "string \<Rightarrow> string \<Rightarrow> string" where
  "str_or a b = (if a = [] then b else a)"

definition opt_str_or :: "string option \<Rightarrow> string \<Rightarrow> string" where
  "opt_str_or a b = (case a of None \<Rightarrow> b | Some s \<Rightarrow> str_or s b)"

text \<open>\<open>a || 0\<close> on numbers: zero is the only falsy integer.\<close>

definition num_or :: "int \<Rightarrow> int \<Rightarrow> int" where
  "num_or a b = (if a = 0 then b else a)"

text \<open>\<open>a || []\<close> on an optional array: every array is truthy.\<close>

definition arr_or :: "'a list option \<Rightarrow> 'a list \<Rightarrow> 'a list" where
  "arr_or a b = (case a of None \<Rightarrow> b | Some xs \<Rightarrow> xs)"

text \<open>The decimal text of a length, as a template literal prints it.\<close>

definition digit :: "nat \<Rightarrow> char" where
  "digit d = ''0123456789'' ! d"

function showNat :: "nat \<Rightarrow> string" where
  "showNat n = (if n < 10 then [digit n] else showNat (n div 10) @ [digit (n mod 10)])"
  by pat_completeness auto
termination
  by (relation "measure id") auto

declare showNat.simps [simp del]

section \<open>The data model (types)\<close>

record Wallet =
  address :: string
  label :: string
  color :: string

record NativeTransfer =
  fromUserAccount :: string
  toUserAccount :: string
  amount :: int

record HeliusTokenTransfer =
  fromUserAccount_t :: string
  toUserAccount_t :: string
  fromTokenAccount :: string
  toTokenAccount :: string
  tokenAmount :: real
  mint_t :: string
  tokenStandard :: string

text \<open>A \<open>TokenTransfer\<close> is the provider's transfer with three optional display fields.\<close>

record TokenTransfer = HeliusTokenTransfer +
  symbol :: "string option"
  decimals :: "nat option"
  imageUri :: "string option"

record HeliusEvents =
  nft_h :: "json option"
  swap_h :: "json option"

record HeliusEnhancedTransaction =
  signature_h :: string
  type_h :: string
  source_h :: string
  description_h :: string
  fee_h :: int
  feePayer_h :: string
  slot_h :: int
  timestamp_h :: int
  nativeTransfers_h :: "NativeTransfer list option"
  tokenTransfers_h :: "HeliusTokenTransfer list option"
  events_h :: "HeliusEvents option"

record Events =
  nft :: "json option"
  swap :: "json option"

record ParsedTransaction =
  signature :: string
  type :: string
  source :: string
  description :: string
  fee :: int
  feePayer :: string
  slot :: int
  timestamp :: int
  blockTime :: int
  nativeTransfers :: "NativeTransfer list"
  tokenTransfers :: "TokenTransfer list"
  events :: Events
  isSelfTransfer :: "bool option"
  walletLabel :: "string option"
  walletColor :: "string option"

section \<open>The wallet store (store/wallet.ts)\<close>

definition WALLET_COLORS :: "string list" where
  "WALLET_COLORS =
     [''#14F195'', ''#9945FF'', ''#00D1FF'', ''#FF6B6B'',
      ''#FFE66D'', ''#4ECDC4'', ''#FF8C42'', ''#A8E6CF'']"

datatype view = timeline | portfolio

record WalletState =
  wallets :: "Wallet list"
  primaryWallet :: "string option"
  isWarpComplete :: bool
  hoveredTransaction :: "ParsedTransaction option"
  selectedTransaction :: "ParsedTransaction option"
  selectedTimeRange :: "(int \<times> int) option"
  currentView :: view
  sidebarCollapsed :: bool

definition initialState :: WalletState where
  "initialState =
     \<lparr>wallets = [], primaryWallet = None, isWarpComplete = False,
      hoveredTransaction = None, selectedTransaction = None, selectedTimeRange = None,
      currentView = timeline, sidebarCollapsed = False\<rparr>"

text \<open>\<open>wallets.some((w) => w.address === address)\<close>\<close>

definition hasWallet :: "Wallet list \<Rightarrow> string \<Rightarrow> bool" where
  "hasWallet ws a = list_ex (\<lambda>w. address w = a) ws"

definition addWallet :: "string \<Rightarrow> string option \<Rightarrow> WalletState \<Rightarrow> WalletState" where
  "addWallet a lbl s =
     (if hasWallet (wallets s) a then s
      else
        let colorIndex = length (wallets s) mod length WALLET_COLORS;
            newWallet = \<lparr>address = a,
                         label = opt_str_or lbl (''Wallet '' @ showNat (length (wallets s) + 1)),
                         color = WALLET_COLORS ! colorIndex\<rparr>
        in s\<lparr>wallets := wallets s @ [newWallet],
             primaryWallet := Some (opt_str_or (primaryWallet s) a)\<rparr>)"

text \<open>\<open>newWallets[0]?.address || null\<close>\<close>

definition firstAddress :: "Wallet list \<Rightarrow> string option" where
  "firstAddress ws =
     (case ws of [] \<Rightarrow> None | w # _ \<Rightarrow> if address w = [] then None else Some (address w))"

definition removeWallet :: "string \<Rightarrow> WalletState \<Rightarrow> WalletState" where
  "removeWallet a s =
     (let newWallets = filter (\<lambda>w. address w \<noteq> a) (wallets s);
          newPrimary = (if primaryWallet s = Some a then firstAddress newWallets
                        else primaryWallet s)
      in s\<lparr>wallets := newWallets,
           primaryWallet := newPrimary,
           isWarpComplete := (if 0 < length newWallets then isWarpComplete s else False)\<rparr>)"

definition updateWalletLabel :: "string \<Rightarrow> string \<Rightarrow> WalletState \<Rightarrow> WalletState" where
  "updateWalletLabel a lbl s =
     s\<lparr>wallets := map (\<lambda>w. if address w = a then w\<lparr>label := lbl\<rparr> else w) (wallets s)\<rparr>"

definition setPrimaryWallet :: "string \<Rightarrow> WalletState \<Rightarrow> WalletState" where
  "setPrimaryWallet a s = s\<lparr>primaryWallet := Some a\<rparr>"

definition clearWallets :: "WalletState \<Rightarrow> WalletState" where
  "clearWallets s = s\<lparr>wallets := [], primaryWallet := None, isWarpComplete := False\<rparr>"

definition setWarpComplete :: "bool \<Rightarrow> WalletState \<Rightarrow> WalletState" where
  "setWarpComplete c s = s\<lparr>isWarpComplete := c\<rparr>"

definition setHoveredTransaction :: "ParsedTransaction option \<Rightarrow> WalletState \<Rightarrow> WalletState" where
  "setHoveredTransaction tx s = s\<lparr>hoveredTransaction := tx\<rparr>"

definition setSelectedTransaction :: "ParsedTransaction option \<Rightarrow> WalletState \<Rightarrow> WalletState" where
  "setSelectedTransaction tx s = s\<lparr>selectedTransaction := tx\<rparr>"

definition setSelectedTimeRange :: "(int \<times> int) option \<Rightarrow> WalletState \<Rightarrow> WalletState" where
  "setSelectedTimeRange r s = s\<lparr>selectedTimeRange := r\<rparr>"

definition setCurrentView :: "view \<Rightarrow> WalletState \<Rightarrow> WalletState" where
  "setCurrentView v s = s\<lparr>currentView := v\<rparr>"

definition toggleSidebar :: "WalletState \<Rightarrow> WalletState" where
  "toggleSidebar s = s\<lparr>sidebarCollapsed := \<not> sidebarCollapsed s\<rparr>"

text \<open>The store's invariant: the primary wallet, when there is one, is a wallet of the list.\<close>

definition primaryInWallets :: "WalletState \<Rightarrow> bool" where
  "primaryInWallets s =
     (case primaryWallet s of None \<Rightarrow> True | Some p \<Rightarrow> hasWallet (wallets s) p)"

section \<open>Merging wallet histories (\<open>mergeTransactions\<close>, the timeline actions in actions/wallet.ts)\<close>

record WalletHistory =
  wallet :: Wallet
  transactions :: "HeliusEnhancedTransaction list"

text \<open>The object literal that converts a provider transaction seen from \<open>wallet\<close>.\<close>

definition toParsed :: "Wallet \<Rightarrow> HeliusEnhancedTransaction \<Rightarrow> ParsedTransaction" where
  "toParsed w tx =
     \<lparr>signature = signature_h tx,
      type = str_or (type_h tx) ''UNKNOWN'',
      source = str_or (source_h tx) ''UNKNOWN'',
      description = str_or (description_h tx) [],
      fee = num_or (fee_h tx) 0,
      feePayer = str_or (feePayer_h tx) [],
      slot = num_or (slot_h tx) 0,
      timestamp = num_or (timestamp_h tx) 0,
      blockTime = num_or (timestamp_h tx) 0,
      nativeTransfers = arr_or (nativeTransfers_h tx) [],
      tokenTransfers =
        map (\<lambda>t. HeliusTokenTransfer.extend t
                    (TokenTransfer.fields None None None))
          (arr_or (tokenTransfers_h tx) []),
      events = \<lparr>nft = (case events_h tx of None \<Rightarrow> None | Some e \<Rightarrow> nft_h e),
                swap = (case events_h tx of None \<Rightarrow> None | Some e \<Rightarrow> swap_h e)\<rparr>,
      isSelfTransfer = Some False,
      walletLabel = Some (label w),
      walletColor = Some (color w)\<rparr>"

text \<open>
  \<open>signatureMap\<close> is a JavaScript \<open>Map\<close>: keys in insertion order, \<open>get\<close> is
  \<^const>\<open>map_of\<close>, and \<open>set\<close> is \<^const>\<open>AList.update\<close> (a present key keeps its
  place, a new key goes last). The map holds references, so the assignment
  \<open>existing.isSelfTransfer = true\<close> changes the entry stored under the key.
\<close>

type_synonym signatureMap = "(string \<times> ParsedTransaction) list"

definition mergeTx :: "Wallet \<Rightarrow> signatureMap \<Rightarrow> HeliusEnhancedTransaction \<Rightarrow> signatureMap" where
  "mergeTx w m tx =
     (case map_of m (signature_h tx) of
        Some existing \<Rightarrow>
          AList.update (signature_h tx) (existing\<lparr>isSelfTransfer := Some True\<rparr>) m
      | None \<Rightarrow> AList.update (signature_h tx) (toParsed w tx) m)"

definition mergeWallet :: "signatureMap \<Rightarrow> WalletHistory \<Rightarrow> signatureMap" where
  "mergeWallet m r = foldl (mergeTx (wallet r)) m (transactions r)"

definition signatureMapOf :: "WalletHistory list \<Rightarrow> signatureMap" where
  "signatureMapOf results = foldl mergeWallet [] results"

text \<open>
  \<open>Array.prototype.sort\<close> is stable, and the comparator \<open>b.timestamp - a.timestamp\<close>
  orders by decreasing timestamp: the result is the stable sort on the key
  \<open>- timestamp\<close>, which \<^const>\<open>sort_key\<close> computes.
\<close>

definition sortNewestFirst :: "ParsedTransaction list \<Rightarrow> ParsedTransaction list" where
  "sortNewestFirst xs = sort_key (\<lambda>p. - timestamp p) xs"

definition mergeTransactions :: "WalletHistory list \<Rightarrow> ParsedTransaction list" where
  "mergeTransactions results = sortNewestFirst (map snd (signatureMapOf results))"

text \<open>Every signature of the input, in input order (with repetitions).\<close>

definition inputSignatures :: "WalletHistory list \<Rightarrow> string list" where
  "inputSignatures results = concat (map (\<lambda>r. map signature_h (transactions r)) results)"

section \<open>Third-party library calls and the network, as parameters\<close>

text \<open>
  The Solana libraries and the network are not code of this repository. Each call the
  sources make to them is a parameter of the embedding; a call that can throw returns
  \<open>js_exn + 'a\<close>, so that every \<open>try\<close>/\<open>catch\<close> of the sources has both branches.
\<close>

datatype PublicKey = Pubkey string

datatype ProgramId = TOKEN_PROGRAM_ID | TOKEN_2022_PROGRAM_ID

datatype TransactionInstruction =
    BurnInstruction PublicKey PublicKey PublicKey int "PublicKey list" ProgramId
      \<comment> \<open>account, mint, owner, amount, multiSigners, programId\<close>
  | CloseAccountInstruction PublicKey PublicKey PublicKey "PublicKey list" ProgramId
      \<comment> \<open>account, destination, authority, multiSigners, programId\<close>

record Transaction =
  recentBlockhash :: "string option"
  feePayer_tx :: "PublicKey option"
  instructions :: "TransactionInstruction list"
  signatures :: "string list"

type_synonym Message = string

record Web3 =
  newPublicKey :: "string \<Rightarrow> js_exn + PublicKey"
    \<comment> \<open>\<open>new PublicKey(s)\<close>\<close>
  getAssociatedTokenAddressSync ::
    "PublicKey \<Rightarrow> PublicKey \<Rightarrow> bool \<Rightarrow> ProgramId \<Rightarrow> js_exn + PublicKey"
  serialize :: "Transaction \<Rightarrow> bool \<Rightarrow> js_exn + string"
    \<comment> \<open>\<open>tx.serialize(...).toString('base64')\<close>; the flag is \<open>requireAllSignatures\<close>\<close>
  transactionFrom :: "string \<Rightarrow> js_exn + Transaction"
    \<comment> \<open>\<open>Transaction.from(Buffer.from(s, 'base64'))\<close>\<close>
  compileMessage :: "Transaction \<Rightarrow> js_exn + Message"

definition createBurnInstruction ::
  "PublicKey \<Rightarrow> PublicKey \<Rightarrow> PublicKey \<Rightarrow> int \<Rightarrow> PublicKey list \<Rightarrow> ProgramId
     \<Rightarrow> TransactionInstruction" where
  "createBurnInstruction account mintKey owner amt signers programId =
     BurnInstruction account mintKey owner amt signers programId"

definition createCloseAccountInstruction ::
  "PublicKey \<Rightarrow> PublicKey \<Rightarrow> PublicKey \<Rightarrow> PublicKey list \<Rightarrow> ProgramId
     \<Rightarrow> TransactionInstruction" where
  "createCloseAccountInstruction account destination authority signers programId =
     CloseAccountInstruction account destination authority signers programId"

record BlockhashInfo =
  blockhash :: string
  lastValidBlockHeight :: int

text \<open>
  A \<open>Connection\<close> object. Every server action creates its own, so one value of this
  type holds the answers the network gives during one invocation of one action.
  \<open>simulateTransactionRpc\<close> answers \<open>result.value.err\<close>: \<open>None\<close> when it is \<open>null\<close>
  (falsy), and the text \<open>JSON.stringify\<close> gives for it otherwise.
\<close>

record Connection =
  getLatestBlockhash :: "js_exn + BlockhashInfo"
  simulateTransactionRpc :: "Message \<Rightarrow> js_exn + json option"
  sendRawTransaction :: "string \<Rightarrow> js_exn + string"
  confirmTransaction :: "string \<Rightarrow> string \<Rightarrow> int \<Rightarrow> js_exn + unit"

section \<open>Result objects\<close>

record ActionResult =
  success :: bool
  error :: "string option"

record 'a DataResult = ActionResult +
  data :: "'a option"

record TimelineResponse = "ParsedTransaction list DataResult" +
  nextCursor :: "string option"

record SendResult = ActionResult +
  txSignature :: "string option"   \<comment> \<open>the field \<open>signature\<close> of the result object\<close>

record CloseAccountsResult = SendResult +
  closedCount :: nat
  skippedCount :: "nat option"
  closedMints :: "string list option"

section \<open>Server actions of actions/rpc.ts\<close>

definition getRecentBlockhash :: "Connection \<Rightarrow> BlockhashInfo DataResult" where
  "getRecentBlockhash conn =
     (case getLatestBlockhash conn of
        Inr info \<Rightarrow> \<lparr>success = True, error = None, data = Some info\<rparr>
      | Inl e \<Rightarrow>
          \<lparr>success = False, error = Some (errorMessage e ''Failed to get blockhash''),
           data = None\<rparr>)"

text \<open>The body of the \<open>try\<close> block of \<open>simulateTransaction\<close>.\<close>

definition simulateTransaction_try :: "Web3 \<Rightarrow> Connection \<Rightarrow> string \<Rightarrow> js_exn + ActionResult" where
  "simulateTransaction_try lib conn serializedTransaction =
     (case transactionFrom lib serializedTransaction of Inl e \<Rightarrow> Inl e
      | Inr transaction \<Rightarrow>
     (case getLatestBlockhash conn of Inl e \<Rightarrow> Inl e
      | Inr info \<Rightarrow>
     (case compileMessage lib (transaction\<lparr>recentBlockhash := Some (blockhash info)\<rparr>) of
        Inl e \<Rightarrow> Inl e
      | Inr message \<Rightarrow>
     (case simulateTransactionRpc conn message of Inl e \<Rightarrow> Inl e
      | Inr None \<Rightarrow> Inr \<lparr>success = True, error = None\<rparr>
      | Inr (Some err) \<Rightarrow> Inr \<lparr>success = False, error = Some err\<rparr>))))"

definition simulateTransaction :: "Web3 \<Rightarrow> Connection \<Rightarrow> string \<Rightarrow> ActionResult" where
  "simulateTransaction lib conn serializedTransaction =
     (case simulateTransaction_try lib conn serializedTransaction of
        Inr r \<Rightarrow> r
      | Inl e \<Rightarrow> \<lparr>success = False, error = Some (errorMessage e ''Simulation failed'')\<rparr>)"

definition sendTransaction_try :: "Connection \<Rightarrow> string \<Rightarrow> js_exn + SendResult" where
  "sendTransaction_try conn serializedTransaction =
     (case sendRawTransaction conn serializedTransaction of Inl e \<Rightarrow> Inl e
      | Inr sig \<Rightarrow>
     (case getLatestBlockhash conn of Inl e \<Rightarrow> Inl e
      | Inr info \<Rightarrow>
     (case confirmTransaction conn sig (blockhash info) (lastValidBlockHeight info) of
        Inl e \<Rightarrow> Inl e
      | Inr _ \<Rightarrow> Inr \<lparr>success = True, error = None, txSignature = Some sig\<rparr>)))"

definition sendTransaction :: "Connection \<Rightarrow> string \<Rightarrow> SendResult" where
  "sendTransaction conn serializedTransaction =
     (case sendTransaction_try conn serializedTransaction of
        Inr r \<Rightarrow> r
      | Inl e \<Rightarrow>
          \<lparr>success = False, error = Some (errorMessage e ''Failed to send transaction''),
           txSignature = None\<rparr>)"

section \<open>HTTP helpers (lib/helius.ts)\<close>

text \<open>
  The answers of the remote services. A reply that throws stands for a failing \<open>fetch\<close>
  or a failing \<open>response.json()\<close>.
\<close>

record AccountValue =
  lamports :: int
  owner :: string
  executable :: bool
  rentEpoch :: int

record AccountInfoResult =
  "value" :: "AccountValue option"

record 'r RpcReply =
  rpcError :: "string option option"
    \<comment> \<open>\<open>json.error\<close>: absent, or an object with an optional \<open>message\<close>\<close>
  rpcResult :: 'r

record TransactionsRequest =
  req_address :: string
  req_before :: "string option"
  req_limit :: int

record TransactionsReply =
  ok_t :: bool
  statusText :: string
  body_t :: "js_exn + HeliusEnhancedTransaction list"

record SnsReply =
  ok_s :: bool
  body_s :: "js_exn + string option"
    \<comment> \<open>\<open>data.result\<close> when it is a string\<close>

record Network =
  postGetAccountInfo :: "string \<Rightarrow> js_exn + AccountInfoResult option RpcReply"
  getSnsResolve :: "string \<Rightarrow> js_exn + SnsReply"
  getTransactions :: "TransactionsRequest \<Rightarrow> js_exn + TransactionsReply"

text \<open>\<open>rpcCall('getAccountInfo', [address, { encoding: 'base58' }])\<close>\<close>

definition rpcCall_getAccountInfo :: "Network \<Rightarrow> string \<Rightarrow> js_exn + AccountInfoResult option" where
  "rpcCall_getAccountInfo net a =
     (case postGetAccountInfo net a of Inl e \<Rightarrow> Inl e
      | Inr reply \<Rightarrow>
          (case rpcError reply of
             Some msg \<Rightarrow> Inl (Error (opt_str_or msg ''RPC call failed''))
           | None \<Rightarrow> Inr (rpcResult reply)))"

record FetchOptions =
  before :: "string option"
  limit :: "int option"

definition fetchParsedTransactions ::
  "Network \<Rightarrow> string \<Rightarrow> FetchOptions \<Rightarrow> js_exn + HeliusEnhancedTransaction list" where
  "fetchParsedTransactions net a options =
     (let lmt = (case limit options of None \<Rightarrow> 100 | Some l \<Rightarrow> l);
          url = \<lparr>req_address = a,
                 req_before = (case before options of None \<Rightarrow> None
                               | Some b \<Rightarrow> if b = [] then None else Some b),
                 req_limit = lmt\<rparr>
      in case getTransactions net url of Inl e \<Rightarrow> Inl e
         | Inr response \<Rightarrow>
             if \<not> ok_t response
             then Inl (Error (''Failed to fetch transactions: '' @ statusText response))
             else body_t response)"

section \<open>Wallet actions (actions/wallet.ts)\<close>

text \<open>
  Strings are byte strings here, so \<open>trim\<close> and \<open>toLowerCase\<close> treat the ASCII range;
  an address or a \<open>.sol\<close> name is ASCII.
\<close>

definition isWhiteSpace :: "char \<Rightarrow> bool" where
  "isWhiteSpace c = (of_char c \<in> {9, 10, 11, 12, 13, 32 :: nat})"

definition trim :: "string \<Rightarrow> string" where
  "trim s = rev (dropWhile isWhiteSpace (rev (dropWhile isWhiteSpace s)))"

definition toLowerCase :: "string \<Rightarrow> string" where
  "toLowerCase s =
     map (\<lambda>c. let n = (of_char c :: nat) in if 65 \<le> n \<and> n \<le> 90 then char_of (n + 32) else c) s"

definition endsWith :: "string \<Rightarrow> string \<Rightarrow> bool" where
  "endsWith s suf = (length suf \<le> length s \<and> drop (length s - length suf) s = suf)"

text \<open>\<open>s.replace(pat, rep)\<close> with a string pattern: the first occurrence only.\<close>

fun replaceFirst :: "string \<Rightarrow> string \<Rightarrow> string \<Rightarrow> string" where
  "replaceFirst pat rep [] = (if pat = [] then rep else [])"
| "replaceFirst pat rep (c # cs) =
     (if take (length pat) (c # cs) = pat then rep @ drop (length pat) (c # cs)
      else c # replaceFirst pat rep cs)"

definition resolveSolDomain :: "Network \<Rightarrow> string \<Rightarrow> string option" where
  "resolveSolDomain net domain =
     (let name = replaceFirst ''.sol'' [] domain
      in case getSnsResolve net name of Inl e \<Rightarrow> None
         | Inr response \<Rightarrow>
             if \<not> ok_s response then None
             else (case body_s response of Inl e \<Rightarrow> None
                   | Inr None \<Rightarrow> None
                   | Inr (Some r) \<Rightarrow> if r = [] then None else Some r))"

definition isValidPublicKey :: "Web3 \<Rightarrow> string \<Rightarrow> bool" where
  "isValidPublicKey lib a = (case newPublicKey lib a of Inl e \<Rightarrow> False | Inr k \<Rightarrow> True)"

definition ensurePubkey :: "Web3 \<Rightarrow> Network \<Rightarrow> string \<Rightarrow> js_exn + string" where
  "ensurePubkey lib net a =
     (let trimmed = trim a
      in if endsWith (toLowerCase trimmed) ''.sol''
         then (case resolveSolDomain net (toLowerCase trimmed) of
                 Some resolved \<Rightarrow> Inr resolved
               | None \<Rightarrow> Inl (Error (''Could not resolve domain: '' @ trimmed)))
         else if \<not> isValidPublicKey lib trimmed
         then Inl (Error (''Invalid Solana address: '' @ trimmed))
         else Inr trimmed)"

record AccountData =
  lamports_d :: int
  owner_d :: string
  solBalance :: real

text \<open>In the result, \<open>data = Some None\<close> is \<open>data: null\<close>.\<close>

definition getAccountInfo_try :: "Network \<Rightarrow> string \<Rightarrow> js_exn + AccountData option DataResult" where
  "getAccountInfo_try net a =
     (case rpcCall_getAccountInfo net a of Inl e \<Rightarrow> Inl e
      | Inr result \<Rightarrow>
          (case (case result of None \<Rightarrow> None | Some r \<Rightarrow> value r) of
             None \<Rightarrow> Inr \<lparr>success = True, error = None, data = Some None\<rparr>
           | Some v \<Rightarrow>
               Inr \<lparr>success = True, error = None,
                    data = Some (Some \<lparr>lamports_d = lamports v, owner_d = owner v,
                                       solBalance = real_of_int (lamports v) / 1000000000\<rparr>)\<rparr>))"

definition getAccountInfo :: "Network \<Rightarrow> string \<Rightarrow> AccountData option DataResult" where
  "getAccountInfo net a =
     (case getAccountInfo_try net a of
        Inr r \<Rightarrow> r
      | Inl e \<Rightarrow>
          \<lparr>success = False, error = Some (errorMessage e ''Failed to fetch account info''),
           data = None\<rparr>)"

section \<open>The merged timeline (\<open>getTimeline\<close>, the timeline actions in actions/wallet.ts)\<close>

text \<open>
  \<open>fetchWalletHistory\<close> returns the transactions and, beside them, the calls of
  \<open>fetchParsedTransactions\<close> it made (its address and options), so that what reaches the
  provider can be stated.
\<close>

type_synonym FetchCall = "string \<times> FetchOptions"

definition fetchWalletHistory ::
  "Web3 \<Rightarrow> Network \<Rightarrow> string \<Rightarrow> FetchOptions
     \<Rightarrow> HeliusEnhancedTransaction list \<times> FetchCall list" where
  "fetchWalletHistory lib net a options =
     (let lmt = (case limit options of None \<Rightarrow> 100 | Some l \<Rightarrow> l)
      in case ensurePubkey lib net a of
           Inl e \<Rightarrow> ([], [])
         | Inr pubkey \<Rightarrow>
             (let opts = \<lparr>before = before options, limit = Some lmt\<rparr>
              in ((case fetchParsedTransactions net pubkey opts of
                     Inl e \<Rightarrow> []
                   | Inr txs \<Rightarrow> txs),
                  [(pubkey, opts)])))"

text \<open>\<open>xs.slice(0, e)\<close>: a negative end counts from the end of the array.\<close>

definition slice0 :: "'a list \<Rightarrow> int \<Rightarrow> 'a list" where
  "slice0 xs e =
     (let len = int (length xs);
          final = (if e < 0 then max (len + e) 0 else min e len)
      in take (nat final) xs)"

text \<open>The per-wallet limit \<open>Math.ceil(limit / wallets.length) + 10\<close>.\<close>

definition perWalletLimit :: "int \<Rightarrow> nat \<Rightarrow> int" where
  "perWalletLimit lmt n = \<lceil>real_of_int lmt / real n\<rceil> + 10"

text \<open>
  \<open>Promise.all(wallets.map(...))\<close>: for every wallet, in order, its history and the calls
  made to fetch it.
\<close>

definition fetchHistories ::
  "Web3 \<Rightarrow> Network \<Rightarrow> Wallet list \<Rightarrow> int \<Rightarrow> string option
     \<Rightarrow> (Wallet \<times> HeliusEnhancedTransaction list \<times> FetchCall list) list" where
  "fetchHistories lib net ws lmt cursor =
     map (\<lambda>w. (w, fetchWalletHistory lib net (address w)
                    \<lparr>before = cursor, limit = Some (perWalletLimit lmt (length ws))\<rparr>))
       ws"

definition getTimeline_try ::
  "Web3 \<Rightarrow> Network \<Rightarrow> Wallet list \<Rightarrow> int \<Rightarrow> string option
     \<Rightarrow> (js_exn + TimelineResponse) \<times> FetchCall list" where
  "getTimeline_try lib net ws lmt cursor =
     (let fetched = fetchHistories lib net ws lmt cursor;
          results = map (\<lambda>(w, r). \<lparr>wallet = w, transactions = fst r\<rparr>) fetched;
          merged = mergeTransactions results;
          trimmed = slice0 merged lmt;
          next = (if 0 < length trimmed then Some (signature (last trimmed)) else None)
      in (Inr \<lparr>success = True, error = None, data = Some trimmed, nextCursor = next\<rparr>,
          concat (map (\<lambda>(w, r). snd r) fetched)))"

definition getTimeline ::
  "Web3 \<Rightarrow> Network \<Rightarrow> Wallet list \<Rightarrow> int option \<Rightarrow> string option
     \<Rightarrow> TimelineResponse \<times> FetchCall list" where
  "getTimeline lib net ws limitOpt cursor =
     (let lmt = (case limitOpt of None \<Rightarrow> 50 | Some l \<Rightarrow> l)
      in case getTimeline_try lib net ws lmt cursor of
           (Inr r, calls) \<Rightarrow> (r, calls)
         | (Inl e, calls) \<Rightarrow>
             (\<lparr>success = False, error = Some (errorMessage e ''Failed to fetch timeline''),
               data = None, nextCursor = None\<rparr>, calls))"

section \<open>Closing dust accounts (hooks/useCloseAccounts.ts)\<close>

record TokenToClose =
  mint :: string
  tokenProgram :: "string option"
  balance :: "int option"

text \<open>
  What \<open>useWallet()\<close> gives. The wallet answers each signing request on its own (the user
  may approve one and reject the next), so \<open>signTransaction\<close> also takes the index of the
  batch it is asked to sign.
\<close>

record WalletAdapter =
  publicKey :: "PublicKey option"
  signTransaction :: "(nat \<Rightarrow> Transaction \<Rightarrow> js_exn + Transaction) option"

text \<open>
  Every call of a server action runs on a connection of its own; the call sites of
  \<open>closeAccounts\<close> name them.
\<close>

datatype CallSite = InitialBlockhash | Simulation nat | BatchBlockhash nat | BatchSend nat

record World =
  web3 :: Web3
  useWallet :: WalletAdapter
  connectionOf :: "CallSite \<Rightarrow> Connection"

text \<open>The calls that leave the hook, in program order.\<close>

datatype Call =
    CallGetRecentBlockhash
  | CallSimulateTransaction string
  | CallSignTransaction Transaction
  | CallSendTransaction string

text \<open>
  The hook's \<open>useState\<close> cells and the log of calls. Between \<open>setIsClosing(true)\<close> and
  the return, \<open>statusMessage\<close> holds progress texts that the last \<open>setStatusMessage('')\<close>
  overwrites; the embedding keeps the state as it is when \<open>closeAccounts\<close> returns.
\<close>

record HookState =
  isClosing :: bool
  statusMessage :: string
  closedMintsState :: "string set"   \<comment> \<open>the state cell \<open>closedMints\<close>\<close>
  reclaimedSOL :: real

record RunState = HookState +
  calls :: "Call list"

definition TOKEN_2022_ADDRESS :: string where
  "TOKEN_2022_ADDRESS = ''TokenzQdBNbLqP5VEhdkAS6EPFLC1PHnBqCXEpPxuEb''"

text \<open>The body of the loop \<open>for (const token of tokens)\<close>.\<close>

definition buildInstructions ::
  "Web3 \<Rightarrow> PublicKey \<Rightarrow> TokenToClose \<Rightarrow> js_exn + TransactionInstruction list" where
  "buildInstructions lib pk tok =
     (case newPublicKey lib (mint tok) of Inl e \<Rightarrow> Inl e
      | Inr mintPubkey \<Rightarrow>
          (let isToken2022 = (tokenProgram tok = Some TOKEN_2022_ADDRESS);
               programId = (if isToken2022 then TOKEN_2022_PROGRAM_ID else TOKEN_PROGRAM_ID)
           in case getAssociatedTokenAddressSync lib mintPubkey pk False programId of
                Inl e \<Rightarrow> Inl e
              | Inr tokenAccountPubkey \<Rightarrow>
                  Inr ((case balance tok of
                          None \<Rightarrow> []
                        | Some b \<Rightarrow>
                            if b \<noteq> 0 \<and> 0 < b
                            then [createBurnInstruction tokenAccountPubkey mintPubkey pk b []
                                    programId]
                            else [])
                       @ [createCloseAccountInstruction tokenAccountPubkey pk pk []
                            programId])))"

fun buildAll ::
  "Web3 \<Rightarrow> PublicKey \<Rightarrow> TokenToClose list
     \<Rightarrow> js_exn + (TokenToClose \<times> TransactionInstruction list) list" where
  "buildAll lib pk [] = Inr []"
| "buildAll lib pk (tok # rest) =
     (case buildInstructions lib pk tok of Inl e \<Rightarrow> Inl e
      | Inr ixs \<Rightarrow>
          (case buildAll lib pk rest of Inl e \<Rightarrow> Inl e
           | Inr others \<Rightarrow> Inr ((tok, ixs) # others)))"

text \<open>
  \<open>new Transaction()\<close> with \<open>recentBlockhash\<close> and \<open>feePayer\<close> assigned and the
  instructions added in order.
\<close>

definition newTransaction ::
  "string \<Rightarrow> PublicKey \<Rightarrow> TransactionInstruction list \<Rightarrow> Transaction" where
  "newTransaction bh pk ixs =
     \<lparr>recentBlockhash = Some bh, feePayer_tx = Some pk, instructions = ixs, signatures = []\<rparr>"

record SimulationResult =
  token :: TokenToClose
  instructions_s :: "TransactionInstruction list"
  valid :: bool

text \<open>
  One element of \<open>simulationPromises\<close>: the serialised test transaction that was sent
  for simulation and the promise's value, or the exception that rejected the promise.
\<close>

definition simulateOne ::
  "World \<Rightarrow> string \<Rightarrow> PublicKey \<Rightarrow> nat \<Rightarrow> TokenToClose \<times> TransactionInstruction list
     \<Rightarrow> js_exn + string \<times> SimulationResult" where
  "simulateOne w bh pk i ti =
     (let testTx = newTransaction bh pk (snd ti)
      in case serialize (web3 w) testTx False of Inl e \<Rightarrow> Inl e
         | Inr serialized \<Rightarrow>
             (let result = simulateTransaction (web3 w) (connectionOf w (Simulation i)) serialized
              in Inr (serialized,
                      \<lparr>token = fst ti, instructions_s = snd ti, valid = success result\<rparr>)))"

definition simulationPromises ::
  "World \<Rightarrow> string \<Rightarrow> PublicKey \<Rightarrow> (TokenToClose \<times> TransactionInstruction list) list
     \<Rightarrow> (js_exn + string \<times> SimulationResult) list" where
  "simulationPromises w bh pk tis = map (\<lambda>(i, ti). simulateOne w bh pk i ti) (enumerate 0 tis)"

text \<open>The simulation calls the promises made: one for each that got past \<open>serialize\<close>.\<close>

definition simulationCalls :: "(js_exn + string \<times> SimulationResult) list \<Rightarrow> Call list" where
  "simulationCalls ps =
     concat (map (\<lambda>p. case p of Inl e \<Rightarrow> [] | Inr r \<Rightarrow> [CallSimulateTransaction (fst r)]) ps)"

text \<open>\<open>Promise.all\<close>: the values in order, or the rejection of the first rejected promise.\<close>

fun promiseAll :: "(js_exn + 'a) list \<Rightarrow> js_exn + 'a list" where
  "promiseAll [] = Inr []"
| "promiseAll (Inl e # ps) = Inl e"
| "promiseAll (Inr x # ps) = (case promiseAll ps of Inl e \<Rightarrow> Inl e | Inr xs \<Rightarrow> Inr (x # xs))"

definition MAX_ACCOUNTS_PER_TX :: nat where
  "MAX_ACCOUNTS_PER_TX = 5"

record Batch =
  instructions_b :: "TransactionInstruction list"
  mints :: "string list"

text \<open>
  The loop \<open>for (let i = 0; i < validTokens.length; i += MAX_ACCOUNTS_PER_TX)\<close>, from
  index \<open>i\<close> on; \<open>validTokens.slice(i, i + MAX_ACCOUNTS_PER_TX)\<close> is
  \<open>take MAX_ACCOUNTS_PER_TX (drop i validTokens)\<close>.
\<close>

function buildBatches :: "nat \<Rightarrow> SimulationResult list \<Rightarrow> Batch list" where
  "buildBatches i validTokens =
     (if i < length validTokens
      then (let batchTokens = take MAX_ACCOUNTS_PER_TX (drop i validTokens)
            in \<lparr>instructions_b = concat (map instructions_s batchTokens),
                mints = map (\<lambda>r. mint (token r)) batchTokens\<rparr>)
           # buildBatches (i + MAX_ACCOUNTS_PER_TX) validTokens
      else [])"
  by pat_completeness auto
termination
  by (relation "measure (\<lambda>(i, validTokens). length validTokens - i)")
     (auto simp: MAX_ACCOUNTS_PER_TX_def)

declare buildBatches.simps [simp del]

record LoopVars =
  closedCount_v :: nat
  lastSignature :: "string option"
  lastError :: "string option"
  allClosedMints :: "string list"

definition RENT_PER_ACCOUNT :: real where
  "RENT_PER_ACCOUNT = 203928 / 100000000"   \<comment> \<open>the literal \<open>0.00203928\<close>\<close>

text \<open>
  The first two statements of the inner \<open>try\<close>: the wallet signs the batch transaction
  and the signed transaction is serialised. Either may throw.
\<close>

definition signedPayload ::
  "World \<Rightarrow> (nat \<Rightarrow> Transaction \<Rightarrow> js_exn + Transaction) \<Rightarrow> nat \<Rightarrow> Transaction
     \<Rightarrow> js_exn + string" where
  "signedPayload w sign i batchTx =
     (case sign i batchTx of Inl e \<Rightarrow> Inl e
      | Inr signedTx \<Rightarrow> serialize (web3 w) signedTx True)"

text \<open>
  The loop \<open>for (let i = 0; i < batches.length; i++)\<close>, from batch \<open>i\<close> on. A failed
  blockhash fetch throws out of the loop; a failure inside the inner \<open>try\<close> sets
  \<open>lastError\<close> and the loop goes on.
\<close>

fun processBatches ::
  "World \<Rightarrow> PublicKey \<Rightarrow> (nat \<Rightarrow> Transaction \<Rightarrow> js_exn + Transaction) \<Rightarrow> nat \<Rightarrow> Batch list
     \<Rightarrow> LoopVars \<Rightarrow> RunState \<Rightarrow> (js_exn + LoopVars) \<times> RunState" where
  "processBatches w pk sign i [] v st = (Inr v, st)"
| "processBatches w pk sign i (batch # rest) v st =
     (let st1 = st\<lparr>calls := calls st @ [CallGetRecentBlockhash]\<rparr>;
          freshBlockhash = getRecentBlockhash (connectionOf w (BatchBlockhash i))
      in case (success freshBlockhash, data freshBlockhash) of
           (True, Some d) \<Rightarrow>
             (let batchTx = newTransaction (blockhash d) pk (instructions_b batch);
                  st2 = st1\<lparr>calls := calls st1 @ [CallSignTransaction batchTx]\<rparr>
              in case signedPayload w sign i batchTx of
                   Inl e \<Rightarrow>
                     processBatches w pk sign (i + 1) rest
                       (v\<lparr>lastError := Some (errorMessage e ''Unknown error'')\<rparr>) st2
                 | Inr serialized \<Rightarrow>
                     (let st3 = st2\<lparr>calls := calls st2 @ [CallSendTransaction serialized]\<rparr>;
                          sendResult = sendTransaction (connectionOf w (BatchSend i)) serialized
                      in if success sendResult
                         then processBatches w pk sign (i + 1) rest
                                (v\<lparr>closedCount_v := closedCount_v v + length (mints batch),
                                   lastSignature := txSignature sendResult,
                                   allClosedMints := allClosedMints v @ mints batch\<rparr>)
                                (st3\<lparr>closedMintsState :=
                                        closedMintsState st3 \<union> set (mints batch),
                                      reclaimedSOL :=
                                        reclaimedSOL st3
                                          + real (length (mints batch)) * RENT_PER_ACCOUNT\<rparr>)
                         else processBatches w pk sign (i + 1) rest
                                (v\<lparr>lastError := error sendResult\<rparr>) st3))
         | _ \<Rightarrow>
             (Inl (Error (opt_str_or (error freshBlockhash) ''Failed to get blockhash'')), st1))"

definition failed :: "string \<Rightarrow> nat option \<Rightarrow> CloseAccountsResult" where
  "failed msg skipped =
     \<lparr>success = False, error = Some msg, txSignature = None, closedCount = 0,
      skippedCount = skipped, closedMints = None\<rparr>"

definition initialVars :: LoopVars where
  "initialVars = \<lparr>closedCount_v = 0, lastSignature = None, lastError = None, allClosedMints = []\<rparr>"

text \<open>\<open>setIsClosing(false); setStatusMessage('')\<close>\<close>

definition stopClosing :: "RunState \<Rightarrow> RunState" where
  "stopClosing st = st\<lparr>isClosing := False, statusMessage := []\<rparr>"

text \<open>The stages of the \<open>try\<close> block, as functions of what the stage before produced.\<close>

definition validTokensOf :: "SimulationResult list \<Rightarrow> SimulationResult list" where
  "validTokensOf simulationResults = filter valid simulationResults"

definition finalResult :: "LoopVars \<Rightarrow> nat \<Rightarrow> CloseAccountsResult" where
  "finalResult v skipped =
     (if 0 < closedCount_v v
      then \<lparr>success = True, error = None, txSignature = lastSignature v,
            closedCount = closedCount_v v, skippedCount = Some skipped,
            closedMints = Some (allClosedMints v)\<rparr>
      else failed (opt_str_or (lastError v) ''Failed to close accounts'') (Some skipped))"

definition closeAccounts_try ::
  "World \<Rightarrow> PublicKey \<Rightarrow> (nat \<Rightarrow> Transaction \<Rightarrow> js_exn + Transaction) \<Rightarrow> TokenToClose list
     \<Rightarrow> RunState \<Rightarrow> (js_exn + CloseAccountsResult) \<times> RunState" where
  "closeAccounts_try w pk sign tokens st =
     (let st1 = st\<lparr>calls := calls st @ [CallGetRecentBlockhash]\<rparr>;
          blockhashResult = getRecentBlockhash (connectionOf w InitialBlockhash)
      in case (success blockhashResult, data blockhashResult) of
           (True, Some d) \<Rightarrow>
             (case buildAll (web3 w) pk tokens of
                Inl e \<Rightarrow> (Inl e, st1)
              | Inr tokenInstructions \<Rightarrow>
                  (let promises = simulationPromises w (blockhash d) pk tokenInstructions;
                       st2 = st1\<lparr>calls := calls st1 @ simulationCalls promises\<rparr>
                   in case promiseAll promises of
                        Inl e \<Rightarrow> (Inl e, st2)
                      | Inr settled \<Rightarrow>
                          (let simulationResults = map snd settled;
                               validTokens = validTokensOf simulationResults;
                               skipped = length simulationResults - length validTokens
                           in if length validTokens = 0
                              then (Inr (failed ''All accounts are frozen or invalid'' (Some skipped)),
                                    stopClosing st2)
                              else (case processBatches w pk sign 0 (buildBatches 0 validTokens)
                                           initialVars st2 of
                                      (Inl e, st3) \<Rightarrow> (Inl e, st3)
                                    | (Inr v, st3) \<Rightarrow>
                                        (Inr (finalResult v skipped), stopClosing st3)))))
         | _ \<Rightarrow>
             (Inl (Error (opt_str_or (error blockhashResult) ''Failed to get blockhash'')), st1))"

definition closeAccounts ::
  "World \<Rightarrow> TokenToClose list \<Rightarrow> RunState \<Rightarrow> CloseAccountsResult \<times> RunState" where
  "closeAccounts w tokens st =
     (case (publicKey (useWallet w), signTransaction (useWallet w)) of
        (Some pk, Some sign) \<Rightarrow>
          if length tokens = 0 then (failed ''No accounts selected'' None, st)
          else (case closeAccounts_try w pk sign tokens (st\<lparr>isClosing := True\<rparr>) of
                  (Inr r, st') \<Rightarrow> (r, st')
                | (Inl e, st') \<Rightarrow>
                    (failed (errorMessage e ''Unknown error'') None, stopClosing st'))
      | _ \<Rightarrow> (failed ''Wallet not connected'' None, st))"

section \<open>Reading a run of the batch loop\<close>

text \<open>
  What one turn of the batch loop does, read off the answers of the world: the calls it
  makes, whether its batch was submitted with success, and the error it leaves in
  \<open>lastError\<close> when it was not. A turn is a pair of the batch's index and the batch.
\<close>

definition freshBlockhashOf :: "World \<Rightarrow> nat \<Rightarrow> string option" where
  "freshBlockhashOf w i =
     (case getLatestBlockhash (connectionOf w (BatchBlockhash i)) of
        Inr info \<Rightarrow> Some (blockhash info)
      | Inl e \<Rightarrow> None)"

definition blockhashFails :: "World \<Rightarrow> nat \<times> Batch \<Rightarrow> bool" where
  "blockhashFails w turn = (freshBlockhashOf w (fst turn) = None)"

definition turnCalls ::
  "World \<Rightarrow> PublicKey \<Rightarrow> (nat \<Rightarrow> Transaction \<Rightarrow> js_exn + Transaction) \<Rightarrow> nat \<times> Batch
     \<Rightarrow> Call list" where
  "turnCalls w pk sign turn =
     (case freshBlockhashOf w (fst turn) of
        None \<Rightarrow> [CallGetRecentBlockhash]
      | Some bh \<Rightarrow>
          CallGetRecentBlockhash
          # CallSignTransaction (newTransaction bh pk (instructions_b (snd turn)))
          # (case signedPayload w sign (fst turn)
                    (newTransaction bh pk (instructions_b (snd turn))) of
               Inl e \<Rightarrow> []
             | Inr serialized \<Rightarrow> [CallSendTransaction serialized]))"

definition turnSucceeded ::
  "World \<Rightarrow> PublicKey \<Rightarrow> (nat \<Rightarrow> Transaction \<Rightarrow> js_exn + Transaction) \<Rightarrow> nat \<times> Batch
     \<Rightarrow> bool" where
  "turnSucceeded w pk sign turn =
     (case freshBlockhashOf w (fst turn) of
        None \<Rightarrow> False
      | Some bh \<Rightarrow>
          (case signedPayload w sign (fst turn)
                  (newTransaction bh pk (instructions_b (snd turn))) of
             Inl e \<Rightarrow> False
           | Inr serialized \<Rightarrow>
               success (sendTransaction (connectionOf w (BatchSend (fst turn))) serialized)))"

definition turnError ::
  "World \<Rightarrow> PublicKey \<Rightarrow> (nat \<Rightarrow> Transaction \<Rightarrow> js_exn + Transaction) \<Rightarrow> nat \<times> Batch
     \<Rightarrow> string option" where
  "turnError w pk sign turn =
     (case freshBlockhashOf w (fst turn) of
        None \<Rightarrow> None
      | Some bh \<Rightarrow>
          (case signedPayload w sign (fst turn)
                  (newTransaction bh pk (instructions_b (snd turn))) of
             Inl e \<Rightarrow> Some (errorMessage e ''Unknown error'')
           | Inr serialized \<Rightarrow>
               error (sendTransaction (connectionOf w (BatchSend (fst turn))) serialized)))"

text \<open>The elements of a list up to and including the first that satisfies \<open>P\<close>.\<close>

fun uptoFirst :: "('a \<Rightarrow> bool) \<Rightarrow> 'a list \<Rightarrow> 'a list" where
  "uptoFirst P [] = []"
| "uptoFirst P (x # xs) = x # (if P x then [] else uptoFirst P xs)"

text \<open>The kinds of call in the log.\<close>

definition isSimulate :: "Call \<Rightarrow> bool" where
  "isSimulate c = (case c of CallSimulateTransaction s \<Rightarrow> True | _ \<Rightarrow> False)"

definition isSign :: "Call \<Rightarrow> bool" where
  "isSign c = (case c of CallSignTransaction tx \<Rightarrow> True | _ \<Rightarrow> False)"

definition isSend :: "Call \<Rightarrow> bool" where
  "isSend c = (case c of CallSendTransaction s \<Rightarrow> True | _ \<Rightarrow> False)"

section \<open>Result objects of the server actions\<close>

text \<open>
  A result object as the user interface reads it: \<open>success\<close> is \<open>true\<close> and there is no
  error, or \<open>success\<close> is \<open>false\<close> and there is an error string.
\<close>

definition resultObject :: "'a ActionResult_scheme \<Rightarrow> bool" where
  "resultObject r = ((success r \<and> error r = None) \<or> (\<not> success r \<and> error r \<noteq> None))"

section \<open>Invariants used in the proofs\<close>

text \<open>
  The loop invariant of \<open>mergeTransactions\<close>, after the signatures \<open>sigs\<close> have been
  processed: the keys of the map are these signatures, each entry carries its key, and an
  entry is marked exactly when its key has been seen more than once.
\<close>

definition mergeInv :: "signatureMap \<Rightarrow> string list \<Rightarrow> bool" where
  "mergeInv m sigs \<longleftrightarrow>
     distinct (map fst m) \<and> dom (map_of m) = set sigs \<and>
     (\<forall>k p. map_of m k = Some p \<longrightarrow>
        signature p = k \<and> isSelfTransfer p = Some (1 < count_list sigs k))"

section \<open>Example inputs\<close>

definition twoWallets :: WalletState where
  "twoWallets = addWallet ''B'' None (addWallet ''A'' None initialState)"

definition rawTx :: "string \<Rightarrow> int \<Rightarrow> HeliusEnhancedTransaction" where
  "rawTx sig ts =
     \<lparr>signature_h = sig, type_h = ''TRANSFER'', source_h = [], description_h = [],
      fee_h = 5000, feePayer_h = ''payer'', slot_h = 1, timestamp_h = ts,
      nativeTransfers_h = None, tokenTransfers_h = None, events_h = None\<rparr>"

definition walletA :: Wallet where
  "walletA = \<lparr>address = ''A'', label = ''Wallet 1'', color = ''#14F195''\<rparr>"

definition walletB :: Wallet where
  "walletB = \<lparr>address = ''B'', label = ''Wallet 2'', color = ''#9945FF''\<rparr>"

definition twoHistories :: "WalletHistory list" where
  "twoHistories =
     [\<lparr>wallet = walletA, transactions = [rawTx ''s1'' 10, rawTx ''s2'' 30]\<rparr>,
      \<lparr>wallet = walletB, transactions = [rawTx ''s3'' 20, rawTx ''s1'' 10]\<rparr>]"

definition ownerKey :: PublicKey where
  "ownerKey = Pubkey ''owner''"

definition okWeb3 :: Web3 where
  "okWeb3 =
     \<lparr>newPublicKey = (\<lambda>s. Inr (Pubkey s)),
      getAssociatedTokenAddressSync =
        (\<lambda>m ownr allow pid. Inr (case m of Pubkey s \<Rightarrow> Pubkey (''ata-'' @ s))),
      serialize = (\<lambda>tx req. Inr (if req then ''signed'' else ''unsigned'')),
      transactionFrom =
        (\<lambda>s. Inr \<lparr>recentBlockhash = None, feePayer_tx = None, instructions = [],
                    signatures = []\<rparr>),
      compileMessage = (\<lambda>tx. Inr ''message'')\<rparr>"

definition okConnection :: Connection where
  "okConnection =
     \<lparr>getLatestBlockhash = Inr \<lparr>blockhash = ''bh'', lastValidBlockHeight = 100\<rparr>,
      simulateTransactionRpc = (\<lambda>m. Inr None),
      sendRawTransaction = (\<lambda>s. Inr ''sig''),
      confirmTransaction = (\<lambda>s b h. Inr ())\<rparr>"


definition downConnection :: Connection where
  "downConnection = okConnection\<lparr>getLatestBlockhash := Inl (Error ''fetch failed'')\<rparr>"

definition silentConnection :: Connection where
  "silentConnection = okConnection\<lparr>getLatestBlockhash := Inl (Error [])\<rparr>"

definition approve :: "nat \<Rightarrow> Transaction \<Rightarrow> js_exn + Transaction" where
  "approve i tx = Inr (tx\<lparr>signatures := [''owner-signature'']\<rparr>)"

definition reject :: "nat \<Rightarrow> Transaction \<Rightarrow> js_exn + Transaction" where
  "reject i tx = Inl (Error [])"

definition approvingWallet :: WalletAdapter where
  "approvingWallet = \<lparr>publicKey = Some ownerKey, signTransaction = Some approve\<rparr>"

definition okWorld :: World where
  "okWorld = \<lparr>web3 = okWeb3, useWallet = approvingWallet, connectionOf = (\<lambda>site. okConnection)\<rparr>"


definition disconnectedWorld :: World where
  "disconnectedWorld = okWorld\<lparr>useWallet := \<lparr>publicKey = None, signTransaction = None\<rparr>\<rparr>"

definition secondFetchDownWorld :: World where
  "secondFetchDownWorld =
     okWorld\<lparr>connectionOf :=
               (\<lambda>site. if site = BatchBlockhash 1 then downConnection else okConnection)\<rparr>"

definition rejectingWorld :: World where
  "rejectingWorld =
     okWorld\<lparr>useWallet :=
               \<lparr>publicKey = Some ownerKey, signTransaction = Some reject\<rparr>\<rparr>"

definition idleState :: RunState where
  "idleState =
     \<lparr>isClosing = False, statusMessage = [], closedMintsState = {}, reclaimedSOL = 0,
      calls = []\<rparr>"

definition dust :: "string \<Rightarrow> TokenToClose" where
  "dust m = \<lparr>mint = m, tokenProgram = None, balance = Some 1\<rparr>"

definition sixTokens :: "TokenToClose list" where
  "sixTokens = map dust [''m1'', ''m2'', ''m3'', ''m4'', ''m5'', ''m6'']"


definition dustInstructions :: "string \<Rightarrow> TransactionInstruction list" where
  "dustInstructions m =
     [BurnInstruction (Pubkey (''ata-'' @ m)) (Pubkey m) ownerKey 1 [] TOKEN_PROGRAM_ID,
      CloseAccountInstruction (Pubkey (''ata-'' @ m)) ownerKey ownerKey [] TOKEN_PROGRAM_ID]"

definition built :: "string list \<Rightarrow> (TokenToClose \<times> TransactionInstruction list) list" where
  "built ms = map (\<lambda>m. (dust m, dustInstructions m)) ms"

definition settledAs :: "bool \<Rightarrow> string list \<Rightarrow> (string \<times> SimulationResult) list" where
  "settledAs v ms =
     map (\<lambda>m. (''unsigned'',
                \<lparr>token = dust m, instructions_s = dustInstructions m, valid = v\<rparr>)) ms"

definition okInfo :: BlockhashInfo where
  "okInfo = \<lparr>blockhash = ''bh'', lastValidBlockHeight = 100\<rparr>"

definition token2022Empty :: TokenToClose where
  "token2022Empty =
     \<lparr>mint = ''m2'', tokenProgram = Some ''TokenzQdBNbLqP5VEhdkAS6EPFLC1PHnBqCXEpPxuEb'',
      balance = Some 0\<rparr>"

definition okNetwork :: Network where
  "okNetwork =
     \<lparr>postGetAccountInfo = (\<lambda>a. Inr \<lparr>rpcError = None, rpcResult = None\<rparr>),
      getSnsResolve = (\<lambda>n. Inl (Error ''offline'')),
      getTransactions =
        (\<lambda>req. Inr \<lparr>ok_t = True, statusText = ''OK'',
                      body_t = Inr [rawTx ''s1'' 10, rawTx ''s2'' 30, rawTx ''s3'' 20]\<rparr>)\<rparr>"

definition downNetwork :: Network where
  "downNetwork = okNetwork\<lparr>postGetAccountInfo := (\<lambda>a. Inl (Error ''fetch failed''))\<rparr>"

definition silentNetwork :: Network where
  "silentNetwork = okNetwork\<lparr>postGetAccountInfo := (\<lambda>a. Inl (Error []))\<rparr>"

text \<open>
  A library stub whose serialisation shows what a transaction carries (its blockhash, its
  instructions and its signatures), and a world whose connections answer every call site
  with a blockhash of its own.
\<close>

fun instructionTag :: "TransactionInstruction \<Rightarrow> string" where
  "instructionTag (BurnInstruction (Pubkey a) m ownr amt signers pid) = ''burn '' @ a @ '';''"
| "instructionTag (CloseAccountInstruction (Pubkey a) dest auth signers pid) =
     ''close '' @ a @ '';''"

definition wire :: "Transaction \<Rightarrow> bool \<Rightarrow> string" where
  "wire tx req =
     (if req then ''signed'' else ''unsigned'') @ ''|''
     @ (case recentBlockhash tx of None \<Rightarrow> [] | Some bh \<Rightarrow> bh) @ ''|''
     @ concat (map instructionTag (instructions tx)) @ ''|''
     @ concat (signatures tx)"

definition liveWeb3 :: Web3 where
  "liveWeb3 = okWeb3\<lparr>serialize := (\<lambda>tx req. Inr (wire tx req))\<rparr>"

fun siteBlockhash :: "CallSite \<Rightarrow> string" where
  "siteBlockhash InitialBlockhash = ''bh-initial''"
| "siteBlockhash (Simulation i) = ''bh-simulation''"
| "siteBlockhash (BatchBlockhash i) = ''bh-batch'' @ showNat i"
| "siteBlockhash (BatchSend i) = ''bh-send''"

definition liveConnection :: "CallSite \<Rightarrow> Connection" where
  "liveConnection site =
     okConnection\<lparr>getLatestBlockhash :=
                     Inr \<lparr>blockhash = siteBlockhash site, lastValidBlockHeight = 100\<rparr>\<rparr>"

definition liveWorld :: World where
  "liveWorld = \<lparr>web3 = liveWeb3, useWallet = approvingWallet, connectionOf = liveConnection\<rparr>"


definition initialInfo :: BlockhashInfo where
  "initialInfo = \<lparr>blockhash = ''bh-initial'', lastValidBlockHeight = 100\<rparr>"

definition walletP :: Wallet where
  "walletP =
     \<lparr>address = ''4Nd1mBQtrMJVYVfKf2PJy9NZUZdTAsp7D4xWLs4gDB4T'', label = ''Wallet 1'',
      color = ''#14F195''\<rparr>"

definition walletQ :: Wallet where
  "walletQ =
     \<lparr>address = ''9xQeWvG816bUx9EPjHmaT23yvVM2ZWbrrpZb9PusVFin'', label = ''Wallet 2'',
      color = ''#9945FF''\<rparr>"

text \<open>
  A provider that pages by the \<open>before\<close> parameter of the request. The first wallet has
  the transactions \<open>s4\<close>, \<open>s2\<close> and \<open>s1\<close>, the second \<open>s3\<close> and \<open>s2\<close> (a transfer
  between the two); the timestamps are 40, 30, 20 and 10 for \<open>s4\<close> down to \<open>s1\<close>.
\<close>

definition pagedNetwork :: Network where
  "pagedNetwork =
     okNetwork\<lparr>getTransactions :=
       (\<lambda>req. Inr \<lparr>ok_t = True, statusText = ''OK'',
                     body_t = Inr
                       (if req_address req = address walletP
                        then (if req_before req = Some ''s3''
                              then [rawTx ''s2'' 20, rawTx ''s1'' 10]
                              else [rawTx ''s4'' 40, rawTx ''s2'' 20])
                        else (if req_before req = Some ''s3''
                              then [rawTx ''s2'' 20]
                              else [rawTx ''s3'' 30, rawTx ''s2'' 20]))\<rparr>)\<rparr>"

definition settledLive :: "(string \<times> bool) list \<Rightarrow> (string \<times> SimulationResult) list" where
  "settledLive mvs =
     map (\<lambda>(m, v). (''unsigned|bh-initial|burn ata-'' @ m @ '';close ata-'' @ m @ '';|'',
                     \<lparr>token = dust m, instructions_s = dustInstructions m, valid = v\<rparr>))
       mvs"

definition sixSettled :: "(string \<times> SimulationResult) list" where
  "sixSettled =
     settledLive [(''m1'', True), (''m2'', True), (''m3'', True), (''m4'', True),
                  (''m5'', True), (''m6'', True)]"

section \<open>Properties of the wallet store\<close>

lemma hasWallet_iff: "hasWallet ws a \<longleftrightarrow> a \<in> address ` set ws"
  by (auto simp: hasWallet_def list_ex_iff)

text \<open>
  Claim C8 (as amended). \<open>addWallet\<close> with an address that is already in \<open>wallets\<close> leaves
  the whole state unchanged. With a new address it appends one wallet: the address, the
  colour \<open>WALLET_COLORS[previous length mod 8]\<close>, and the label given, or
  \<open>Wallet <n+1>\<close> when the label is missing or empty; \<open>primaryWallet\<close> becomes the new
  address when it was \<open>null\<close> or the empty string, and is kept otherwise; nothing else
  changes. Distinct addresses stay distinct.
\<close>

theorem addWallet_spec:
  "(hasWallet (wallets s) a \<longrightarrow> addWallet a lbl s = s) \<and>
   (\<not> hasWallet (wallets s) a \<longrightarrow>
      addWallet a lbl s =
        s\<lparr>wallets := wallets s @
              [\<lparr>address = a,
                label = (if lbl = None \<or> lbl = Some []
                         then ''Wallet '' @ showNat (length (wallets s) + 1) else the lbl),
                color = WALLET_COLORS ! (length (wallets s) mod 8)\<rparr>],
          primaryWallet := (if primaryWallet s = None \<or> primaryWallet s = Some []
                            then Some a else primaryWallet s)\<rparr>) \<and>
   (distinct (map address (wallets s)) \<longrightarrow>
      distinct (map address (wallets (addWallet a lbl s))))"
proof (intro conjI impI)
  assume "hasWallet (wallets s) a"
  then show "addWallet a lbl s = s" by (simp add: addWallet_def)
next
  assume new: "\<not> hasWallet (wallets s) a"
  have len: "length WALLET_COLORS = 8" by (simp add: WALLET_COLORS_def)
  have lab: "opt_str_or lbl d = (if lbl = None \<or> lbl = Some [] then d else the lbl)" for d
    by (cases lbl) (auto simp: opt_str_or_def str_or_def)
  have prim: "Some (opt_str_or (primaryWallet s) a) =
        (if primaryWallet s = None \<or> primaryWallet s = Some [] then Some a else primaryWallet s)"
    by (cases "primaryWallet s") (auto simp: opt_str_or_def str_or_def)
  show "addWallet a lbl s =
        s\<lparr>wallets := wallets s @
              [\<lparr>address = a,
                label = (if lbl = None \<or> lbl = Some []
                         then ''Wallet '' @ showNat (length (wallets s) + 1) else the lbl),
                color = WALLET_COLORS ! (length (wallets s) mod 8)\<rparr>],
          primaryWallet := (if primaryWallet s = None \<or> primaryWallet s = Some []
                            then Some a else primaryWallet s)\<rparr>"
    using new unfolding addWallet_def Let_def len lab prim by simp
next
  assume d: "distinct (map address (wallets s))"
  show "distinct (map address (wallets (addWallet a lbl s)))"
    using d by (auto simp: addWallet_def Let_def hasWallet_iff)
qed

theorem addWallet_spec_witness:
  "addWallet ''A'' None (addWallet ''A'' None initialState) = addWallet ''A'' None initialState \<and>
   wallets (addWallet ''B'' (Some ''Cold'') (addWallet ''A'' None initialState)) =
     [\<lparr>address = ''A'', label = ''Wallet 1'', color = ''#14F195''\<rparr>,
      \<lparr>address = ''B'', label = ''Cold'', color = ''#9945FF''\<rparr>] \<and>
   primaryWallet (addWallet ''B'' (Some ''Cold'') (addWallet ''A'' None initialState)) = Some ''A'' \<and>
   distinct (map address (wallets (addWallet ''B'' (Some ''Cold'') (addWallet ''A'' None initialState))))"
proof -
  have s1: "addWallet ''A'' None initialState =
      initialState\<lparr>wallets := [\<lparr>address = ''A'', label = ''Wallet 1'', color = ''#14F195''\<rparr>],
                   primaryWallet := Some ''A''\<rparr>"
    using addWallet_spec [of initialState "''A''" None]
    by (simp add: initialState_def hasWallet_def showNat.simps digit_def WALLET_COLORS_def)
  have h1: "hasWallet (wallets (addWallet ''A'' None initialState)) ''A''"
    by (simp add: s1 hasWallet_def)
  have h2: "\<not> hasWallet (wallets (addWallet ''A'' None initialState)) ''B''"
    by (simp add: s1 hasWallet_def)
  have h3: "distinct (map address (wallets (addWallet ''A'' None initialState)))"
    by (simp add: s1)
  note c1 = addWallet_spec [of "addWallet ''A'' None initialState" "''A''" None,
      THEN conjunct1, THEN mp, OF h1]
  note c2 = addWallet_spec [of "addWallet ''A'' None initialState" "''B''" "Some ''Cold''",
      THEN conjunct2, THEN conjunct1, THEN mp, OF h2]
  note c3 = addWallet_spec [of "addWallet ''A'' None initialState" "''B''" "Some ''Cold''",
      THEN conjunct2, THEN conjunct2, THEN mp, OF h3]
  have w: "wallets (addWallet ''B'' (Some ''Cold'') (addWallet ''A'' None initialState)) =
     [\<lparr>address = ''A'', label = ''Wallet 1'', color = ''#14F195''\<rparr>,
      \<lparr>address = ''B'', label = ''Cold'', color = ''#9945FF''\<rparr>]"
    by (simp add: c2) (simp add: s1 WALLET_COLORS_def)
  have p: "primaryWallet (addWallet ''B'' (Some ''Cold'') (addWallet ''A'' None initialState)) = Some ''A''"
    by (simp add: c2) (simp add: s1)
  show ?thesis
    using c1 c3 w p by simp
qed

text \<open>
  Claim C8 as stated says that \<open>primaryWallet\<close> is replaced only when it was \<open>null\<close>.
  After \<open>addWallet('')\<close> on the initial store it is the empty string, not \<open>null\<close>, and
  the next \<open>addWallet('B')\<close> replaces it: \<open>'' || 'B'\<close> is \<open>'B'\<close>.
\<close>

theorem addWallet_primary_counterexample:
  "primaryWallet (addWallet [] None initialState) = Some [] \<and>
   primaryWallet (addWallet ''B'' None (addWallet [] None initialState)) = Some ''B''"
  by (simp add: addWallet_def initialState_def hasWallet_def opt_str_or_def str_or_def Let_def)

lemma firstAddress_in: "firstAddress ws = Some p \<Longrightarrow> hasWallet ws p"
  by (cases ws) (auto simp: firstAddress_def hasWallet_def split: if_splits)

lemma hasWallet_filter:
  "hasWallet ws p \<Longrightarrow> p \<noteq> a \<Longrightarrow> hasWallet (filter (\<lambda>w. address w \<noteq> a) ws) p"
  by (auto simp: hasWallet_iff)

lemma hasWallet_relabel:
  "hasWallet (map (\<lambda>w. if address w = a then w\<lparr>label := lbl\<rparr> else w) ws) p = hasWallet ws p"
proof -
  have "address \<circ> (\<lambda>w. if address w = a then w\<lparr>label := lbl\<rparr> else w) = address"
    by (auto simp: fun_eq_iff)
  then have "map address (map (\<lambda>w. if address w = a then w\<lparr>label := lbl\<rparr> else w) ws)
      = map address ws"
    by simp
  then have "address ` set (map (\<lambda>w. if address w = a then w\<lparr>label := lbl\<rparr> else w) ws)
      = address ` set ws"
    by (metis list.set_map)
  then show ?thesis
    by (simp only: hasWallet_iff)
qed

lemma primaryInWallets_addWallet:
  "primaryInWallets s \<Longrightarrow> primaryInWallets (addWallet a lbl s)"
  by (cases "primaryWallet s")
     (auto simp: primaryInWallets_def addWallet_def Let_def hasWallet_iff opt_str_or_def str_or_def)

lemma primaryInWallets_removeWallet:
  assumes "primaryInWallets s"
  shows "primaryInWallets (removeWallet a s)"
proof (cases "primaryWallet s = Some a")
  case True
  then show ?thesis
    by (auto simp: primaryInWallets_def removeWallet_def Let_def
        split: option.splits dest: firstAddress_in)
next
  case False
  show ?thesis
  proof (cases "primaryWallet s")
    case None
    then show ?thesis by (simp add: primaryInWallets_def removeWallet_def Let_def)
  next
    case (Some p)
    with False have "p \<noteq> a" by simp
    moreover from assms Some have "hasWallet (wallets s) p"
      by (simp add: primaryInWallets_def)
    ultimately have "hasWallet (filter (\<lambda>w. address w \<noteq> a) (wallets s)) p"
      by (simp add: hasWallet_filter)
    with Some False show ?thesis
      by (simp add: primaryInWallets_def removeWallet_def Let_def)
  qed
qed

lemma primaryInWallets_updateWalletLabel:
  "primaryInWallets s \<Longrightarrow> primaryInWallets (updateWalletLabel a lbl s)"
  by (cases "primaryWallet s")
     (simp_all add: primaryInWallets_def updateWalletLabel_def hasWallet_relabel)

text \<open>
  Claim C9 (as amended). Every operation of the store except \<open>setPrimaryWallet\<close> keeps the
  invariant that \<open>primaryWallet\<close> is \<open>null\<close> or the address of a wallet of the list, and
  \<open>setPrimaryWallet\<close> keeps it when its argument is such an address. \<open>removeWallet\<close> of
  the primary wallet makes the first remaining wallet's address the primary one, or
  \<open>null\<close> when no wallet remains or that address is empty; \<open>removeWallet\<close> of another
  wallet leaves \<open>primaryWallet\<close> as it is; \<open>clearWallets\<close> empties the list and sets
  \<open>primaryWallet\<close> to \<open>null\<close>.
\<close>

theorem primaryWallet_invariant:
  "primaryInWallets s \<longrightarrow>
     primaryInWallets (addWallet a lbl s) \<and>
     primaryInWallets (removeWallet a s) \<and>
     primaryInWallets (updateWalletLabel a l s) \<and>
     primaryInWallets (clearWallets s) \<and>
     primaryInWallets (setWarpComplete c s) \<and>
     primaryInWallets (setHoveredTransaction tx s) \<and>
     primaryInWallets (setSelectedTransaction tx s) \<and>
     primaryInWallets (setSelectedTimeRange r s) \<and>
     primaryInWallets (setCurrentView v s) \<and>
     primaryInWallets (toggleSidebar s) \<and>
     (hasWallet (wallets s) a \<longrightarrow> primaryInWallets (setPrimaryWallet a s)) \<and>
     (primaryWallet s = Some a \<longrightarrow>
        primaryWallet (removeWallet a s) =
          (case filter (\<lambda>w. address w \<noteq> a) (wallets s) of
             [] \<Rightarrow> None
           | w # _ \<Rightarrow> if address w = [] then None else Some (address w))) \<and>
     (primaryWallet s \<noteq> Some a \<longrightarrow> primaryWallet (removeWallet a s) = primaryWallet s) \<and>
     wallets (clearWallets s) = [] \<and> primaryWallet (clearWallets s) = None"
proof (intro impI conjI)
  assume inv: "primaryInWallets s"
  show "primaryInWallets (addWallet a lbl s)"
    using inv by (rule primaryInWallets_addWallet)
  show "primaryInWallets (removeWallet a s)"
    using inv by (rule primaryInWallets_removeWallet)
  show "primaryInWallets (updateWalletLabel a l s)"
    using inv by (rule primaryInWallets_updateWalletLabel)
  show "primaryInWallets (clearWallets s)"
    by (simp add: primaryInWallets_def clearWallets_def)
  show "primaryInWallets (setWarpComplete c s)"
    using inv by (simp add: primaryInWallets_def setWarpComplete_def split: option.splits)
  show "primaryInWallets (setHoveredTransaction tx s)"
    using inv by (simp add: primaryInWallets_def setHoveredTransaction_def split: option.splits)
  show "primaryInWallets (setSelectedTransaction tx s)"
    using inv by (simp add: primaryInWallets_def setSelectedTransaction_def split: option.splits)
  show "primaryInWallets (setSelectedTimeRange r s)"
    using inv by (simp add: primaryInWallets_def setSelectedTimeRange_def split: option.splits)
  show "primaryInWallets (setCurrentView v s)"
    using inv by (simp add: primaryInWallets_def setCurrentView_def split: option.splits)
  show "primaryInWallets (toggleSidebar s)"
    using inv by (simp add: primaryInWallets_def toggleSidebar_def split: option.splits)
  show "primaryInWallets (setPrimaryWallet a s)" if "hasWallet (wallets s) a"
    using that by (simp add: primaryInWallets_def setPrimaryWallet_def)
  show "primaryWallet (removeWallet a s) =
          (case filter (\<lambda>w. address w \<noteq> a) (wallets s) of
             [] \<Rightarrow> None
           | w # _ \<Rightarrow> if address w = [] then None else Some (address w))"
    if "primaryWallet s = Some a"
    using that by (simp add: removeWallet_def Let_def firstAddress_def)
  show "primaryWallet (removeWallet a s) = primaryWallet s" if "primaryWallet s \<noteq> Some a"
    using that by (simp add: removeWallet_def Let_def)
  show "wallets (clearWallets s) = []" by (simp add: clearWallets_def)
  show "primaryWallet (clearWallets s) = None" by (simp add: clearWallets_def)
qed

lemma twoWallets_eq: "twoWallets = initialState\<lparr>wallets :=  [\<lparr>address = ''A'', label = ''Wallet 1'', color = ''#14F195''\<rparr>,
      \<lparr>address = ''B'', label = ''Wallet 2'', color = ''#9945FF''\<rparr>], primaryWallet := Some ''A''\<rparr>"
  by (simp add: twoWallets_def addWallet_def initialState_def hasWallet_def opt_str_or_def str_or_def Let_def showNat.simps digit_def WALLET_COLORS_def)

theorem primaryWallet_invariant_witness:
  "primaryInWallets twoWallets \<and>
   hasWallet (wallets twoWallets) ''B'' \<and>
   primaryInWallets (setPrimaryWallet ''B'' twoWallets) \<and>
   primaryWallet twoWallets = Some ''A'' \<and>
   primaryWallet (removeWallet ''A'' twoWallets) = Some ''B'' \<and>
   primaryInWallets (removeWallet ''A'' twoWallets) \<and>
   primaryWallet twoWallets \<noteq> Some ''B'' \<and>
   primaryWallet (removeWallet ''B'' twoWallets) = Some ''A'' \<and>
   primaryInWallets (removeWallet ''B'' twoWallets) \<and>
   primaryInWallets (clearWallets twoWallets)"
proof -
  have inv: "primaryInWallets twoWallets"
    by (simp add: twoWallets_eq primaryInWallets_def hasWallet_def)
  have hB: "hasWallet (wallets twoWallets) ''B''"
    by (simp add: twoWallets_eq hasWallet_def)
  have pA: "primaryWallet twoWallets = Some ''A''"
    by (simp add: twoWallets_eq)
  have pB: "primaryWallet twoWallets \<noteq> Some ''B''"
    by (simp add: twoWallets_eq)
  note T = primaryWallet_invariant [THEN mp, OF inv]
  have "primaryWallet (removeWallet ''A'' twoWallets) = Some ''B''"
    using T [of "''A''"] pA by (simp add: twoWallets_eq)
  moreover have "primaryWallet (removeWallet ''B'' twoWallets) = Some ''A''"
    using T [of "''B''"] pB pA by simp
  moreover have "primaryInWallets (setPrimaryWallet ''B'' twoWallets)"
    using T [of "''B''"] hB by simp
  moreover have "primaryInWallets (removeWallet ''A'' twoWallets)"
    and "primaryInWallets (removeWallet ''B'' twoWallets)"
    and "primaryInWallets (clearWallets twoWallets)"
    using T [of "''A''"] T [of "''B''"] by simp_all
  ultimately show ?thesis
    using inv hB pA pB by simp
qed

text \<open>
  Claim C9 as stated covers every operation. \<open>setPrimaryWallet\<close> stores its argument
  without looking at the list: on the initial store the invariant holds before and
  fails after.
\<close>

theorem setPrimaryWallet_counterexample:
  "primaryInWallets initialState \<and> \<not> primaryInWallets (setPrimaryWallet ''X'' initialState)"
  by (simp add: primaryInWallets_def setPrimaryWallet_def initialState_def hasWallet_def)

section \<open>Properties of the merge\<close>

lemma mergeInv_empty: "mergeInv [] []"
  by (simp add: mergeInv_def)

lemma mergeInv_mergeTx:
  assumes "mergeInv m sigs"
  shows "mergeInv (mergeTx w m tx) (sigs @ [signature_h tx])"
proof (cases "map_of m (signature_h tx)")
  case None
  then have notin: "signature_h tx \<notin> set sigs"
    using assms by (auto simp: mergeInv_def)
  then have c0: "count_list sigs (signature_h tx) = 0"
    by (simp add: count_list_0_iff)
  have sg: "signature (toParsed w tx) = signature_h tx"
    and st: "isSelfTransfer (toParsed w tx) = Some False"
    by (simp_all add: toParsed_def)
  show ?thesis
    using assms None c0 sg st
    by (auto simp: mergeInv_def mergeTx_def update_conv' distinct_update)
next
  case (Some existing)
  then have "signature_h tx \<in> set sigs"
    using assms by (auto simp: mergeInv_def)
  then have "count_list sigs (signature_h tx) \<noteq> 0"
    by (simp add: count_list_0_iff)
  then have c1: "0 < count_list sigs (signature_h tx)"
    by simp
  have sg: "signature existing = signature_h tx"
    using assms Some by (simp add: mergeInv_def)
  show ?thesis
    using assms Some c1 sg
    by (auto simp: mergeInv_def mergeTx_def update_conv' distinct_update)
qed


lemma mergeInv_foldl_mergeTx:
  "mergeInv m sigs \<Longrightarrow> mergeInv (foldl (mergeTx w) m txs) (sigs @ map signature_h txs)"
proof (induction txs arbitrary: m sigs)
  case Nil
  then show ?case by simp
next
  case (Cons tx txs)
  from Cons.prems have "mergeInv (mergeTx w m tx) (sigs @ [signature_h tx])"
    by (rule mergeInv_mergeTx)
  from Cons.IH [OF this] show ?case by simp
qed

lemma mergeInv_foldl_mergeWallet:
  "mergeInv m sigs \<Longrightarrow> mergeInv (foldl mergeWallet m rs) (sigs @ inputSignatures rs)"
proof (induction rs arbitrary: m sigs)
  case Nil
  then show ?case by (simp add: inputSignatures_def)
next
  case (Cons r rs)
  from Cons.prems
  have "mergeInv (mergeWallet m r) (sigs @ map signature_h (transactions r))"
    unfolding mergeWallet_def by (rule mergeInv_foldl_mergeTx)
  from Cons.IH [OF this] show ?case by (simp add: inputSignatures_def)
qed

lemma mergeInv_signatureMapOf: "mergeInv (signatureMapOf results) (inputSignatures results)"
  using mergeInv_foldl_mergeWallet [OF mergeInv_empty, of results]
  by (simp add: signatureMapOf_def)

lemma mergeInv_values:
  assumes "mergeInv m sigs"
  shows "map signature (map snd m) = map fst m"
    and "\<forall>p \<in> set (map snd m). isSelfTransfer p = Some (1 < count_list sigs (signature p))"
proof -
  have entry: "signature p = k \<and> isSelfTransfer p = Some (1 < count_list sigs k)"
    if "(k, p) \<in> set m" for k p
  proof -
    from assms have "distinct (map fst m)" by (simp add: mergeInv_def)
    with that have "map_of m k = Some p" by simp
    with assms show ?thesis by (simp add: mergeInv_def)
  qed
  show "map signature (map snd m) = map fst m"
    using entry by (auto simp: list_eq_iff_nth_eq)
  show "\<forall>p \<in> set (map snd m). isSelfTransfer p = Some (1 < count_list sigs (signature p))"
    using entry by auto
qed

lemma distinct_map_sort_key:
  "distinct (map f (sort_key g xs)) = distinct (map f xs)"
  by (simp add: distinct_map)

lemma mergeTransactions_distinct: "distinct (map signature (mergeTransactions results))"
proof -
  let ?m = "signatureMapOf results"
  have inv: "mergeInv ?m (inputSignatures results)" by (rule mergeInv_signatureMapOf)
  have keys: "map signature (map snd ?m) = map fst ?m"
    by (rule mergeInv_values(1) [OF inv])
  have d: "distinct (map fst ?m)"
    using inv by (simp add: mergeInv_def)
  show ?thesis
    unfolding mergeTransactions_def sortNewestFirst_def distinct_map_sort_key keys by (rule d)
qed

lemma mergeTransactions_sorted:
  "sorted_wrt (\<lambda>a b. timestamp b \<le> timestamp a) (mergeTransactions results)"
proof -
  have "sorted (map (\<lambda>p. - timestamp p)
      (sort_key (\<lambda>p. - timestamp p) (map snd (signatureMapOf results))))"
    by (rule sorted_sort_key)
  then show ?thesis
    by (simp add: mergeTransactions_def sortNewestFirst_def sorted_map)
qed

text \<open>
  Claim C1. In the list \<open>mergeTransactions\<close> returns, every signature occurs once, the
  signatures are those of the input lists, and a transaction has
  \<open>isSelfTransfer = true\<close> exactly when its signature stands at more than one position of
  the input lists (it is \<open>false\<close> otherwise).
\<close>

theorem mergeTransactions_dedup:
  "distinct (map signature (mergeTransactions results)) \<and>
   set (map signature (mergeTransactions results)) = set (inputSignatures results) \<and>
   (\<forall>p \<in> set (mergeTransactions results).
      isSelfTransfer p = Some (1 < count_list (inputSignatures results) (signature p)))"
proof -
  let ?m = "signatureMapOf results" and ?sigs = "inputSignatures results"
  have inv: "mergeInv ?m ?sigs" by (rule mergeInv_signatureMapOf)
  have keys: "map signature (map snd ?m) = map fst ?m"
    by (rule mergeInv_values(1) [OF inv])
  have d: "distinct (map fst ?m)" and dm: "dom (map_of ?m) = set ?sigs"
    using inv by (simp_all add: mergeInv_def)
  have sk: "set (map fst ?m) = set ?sigs"
    using dm by (simp add: dom_map_of_conv_image_fst)
  have 1: "distinct (map signature (mergeTransactions results))"
    by (rule mergeTransactions_distinct)
  have "set (map signature (mergeTransactions results)) = set (map signature (map snd ?m))"
    unfolding mergeTransactions_def sortNewestFirst_def by (simp only: set_map set_sort)
  then have 2: "set (map signature (mergeTransactions results)) = set ?sigs"
    unfolding keys sk .
  have 3: "\<forall>p \<in> set (mergeTransactions results).
      isSelfTransfer p = Some (1 < count_list ?sigs (signature p))"
    using mergeInv_values(2) [OF inv]
    unfolding mergeTransactions_def sortNewestFirst_def by simp
  from 1 2 3 show ?thesis by blast
qed

lemma merge_twoHistories:
  "map (\<lambda>p. (signature p, isSelfTransfer p, timestamp p)) (mergeTransactions twoHistories) =
     [(''s2'', Some False, 30), (''s3'', Some False, 20), (''s1'', Some True, 10)]"
  by (simp add: mergeTransactions_def sortNewestFirst_def signatureMapOf_def mergeWallet_def
      mergeTx_def twoHistories_def rawTx_def toParsed_def walletA_def walletB_def
      str_or_def num_or_def arr_or_def)

theorem mergeTransactions_dedup_witness:
  "last (mergeTransactions twoHistories) \<in> set (mergeTransactions twoHistories) \<and>
   signature (last (mergeTransactions twoHistories)) = ''s1'' \<and>
   count_list (inputSignatures twoHistories) ''s1'' = 2 \<and>
   isSelfTransfer (last (mergeTransactions twoHistories)) = Some True \<and>
   map signature (mergeTransactions twoHistories) = [''s2'', ''s3'', ''s1'']"
proof -
  have ne: "mergeTransactions twoHistories \<noteq> []"
    using merge_twoHistories by auto
  then have mem: "last (mergeTransactions twoHistories) \<in> set (mergeTransactions twoHistories)"
    by simp
  have "map (\<lambda>p. (signature p, isSelfTransfer p, timestamp p)) (mergeTransactions twoHistories) ! 2
      = (''s1'', Some True, 10)"
    by (simp add: merge_twoHistories)
  moreover have len: "length (mergeTransactions twoHistories) = 3"
    using arg_cong [OF merge_twoHistories, of length] by simp
  ultimately have sg: "signature (last (mergeTransactions twoHistories)) = ''s1''"
    using ne by (simp add: last_conv_nth)
  have cnt: "count_list (inputSignatures twoHistories) ''s1'' = 2"
    by (simp add: inputSignatures_def twoHistories_def rawTx_def)
  from mergeTransactions_dedup [of twoHistories] mem
  have "isSelfTransfer (last (mergeTransactions twoHistories)) =
      Some (1 < count_list (inputSignatures twoHistories)
        (signature (last (mergeTransactions twoHistories))))"
    by blast
  then have self: "isSelfTransfer (last (mergeTransactions twoHistories)) = Some True"
    by (simp add: sg cnt)
  have sigs: "map signature (mergeTransactions twoHistories) = [''s2'', ''s3'', ''s1'']"
    using arg_cong [OF merge_twoHistories, of "map fst"] by (simp add: comp_def)
  from mem sg cnt self sigs show ?thesis by simp
qed


section \<open>Lemmas about the closing pipeline\<close>

lemma getRecentBlockhash_cases:
  "getLatestBlockhash conn = Inr info \<Longrightarrow>
     getRecentBlockhash conn = \<lparr>success = True, error = None, data = Some info\<rparr>"
  "getLatestBlockhash conn = Inl e \<Longrightarrow>
     getRecentBlockhash conn =
       \<lparr>success = False, error = Some (errorMessage e ''Failed to get blockhash''), data = None\<rparr>"
  by (simp_all add: getRecentBlockhash_def)

lemma freshBlockhashOf_None:
  "freshBlockhashOf w i = None \<longleftrightarrow>
     (\<exists>e. getLatestBlockhash (connectionOf w (BatchBlockhash i)) = Inl e)"
  by (simp add: freshBlockhashOf_def split: sum.splits)

lemma freshBlockhashOf_Some:
  "freshBlockhashOf w i = Some bh \<longleftrightarrow>
     (\<exists>info. getLatestBlockhash (connectionOf w (BatchBlockhash i)) = Inr info \<and>
        blockhash info = bh)"
  by (simp add: freshBlockhashOf_def split: sum.splits)

lemma processBatches_fail:
  assumes "freshBlockhashOf w i = None"
  shows "\<exists>msg. processBatches w pk sign i (b # rest) v st =
           (Inl (Error msg), st\<lparr>calls := calls st @ [CallGetRecentBlockhash]\<rparr>)"
proof -
  from assms obtain e where "getLatestBlockhash (connectionOf w (BatchBlockhash i)) = Inl e"
    by (auto simp: freshBlockhashOf_None)
  then show ?thesis
    by (simp add: getRecentBlockhash_cases)
qed

lemma processBatches_ok:
  assumes "freshBlockhashOf w i = Some bh"
  shows "processBatches w pk sign i (b # rest) v st =
     (let batchTx = newTransaction bh pk (instructions_b b);
          st2 = st\<lparr>calls := calls st @ [CallGetRecentBlockhash, CallSignTransaction batchTx]\<rparr>
      in case signedPayload w sign i batchTx of
           Inl e \<Rightarrow>
             processBatches w pk sign (Suc i) rest
               (v\<lparr>lastError := Some (errorMessage e ''Unknown error'')\<rparr>) st2
         | Inr serialized \<Rightarrow>
             (let st3 = st2\<lparr>calls := calls st2 @ [CallSendTransaction serialized]\<rparr>;
                  sendResult = sendTransaction (connectionOf w (BatchSend i)) serialized
              in if success sendResult
                 then processBatches w pk sign (Suc i) rest
                        (v\<lparr>closedCount_v := closedCount_v v + length (mints b),
                           lastSignature := txSignature sendResult,
                           allClosedMints := allClosedMints v @ mints b\<rparr>)
                        (st3\<lparr>closedMintsState := closedMintsState st3 \<union> set (mints b),
                              reclaimedSOL :=
                                reclaimedSOL st3 + real (length (mints b)) * RENT_PER_ACCOUNT\<rparr>)
                 else processBatches w pk sign (Suc i) rest
                        (v\<lparr>lastError := error sendResult\<rparr>) st3))"
proof -
  from assms obtain info
    where "getLatestBlockhash (connectionOf w (BatchBlockhash i)) = Inr info"
      and "blockhash info = bh"
    by (auto simp: freshBlockhashOf_Some)
  then show ?thesis
    by (simp add: getRecentBlockhash_cases Let_def split: sum.splits)
qed

lemma processBatches_calls:
  "calls (snd (processBatches w pk sign i bs v st)) =
     calls st @ concat (map (turnCalls w pk sign) (uptoFirst (blockhashFails w) (enumerate i bs)))"
proof (induction bs arbitrary: i v st)
  case Nil
  then show ?case by simp
next
  case (Cons b rest)
  show ?case
  proof (cases "freshBlockhashOf w i")
    case None
    with processBatches_fail [OF None, of pk sign b rest v st]
    show ?thesis
      by (auto simp: blockhashFails_def turnCalls_def)
  next
    case (Some bh)
    show ?thesis
      unfolding processBatches_ok [OF Some]
      using Some
      by (simp add: Let_def Cons.IH blockhashFails_def turnCalls_def split: sum.splits)
  qed
qed


lemma processBatches_vars:
  assumes "\<forall>t \<in> set (enumerate i bs). \<not> blockhashFails w t"
  shows "\<exists>v' st'. processBatches w pk sign i bs v st = (Inr v', st') \<and>
     closedCount_v v' = closedCount_v v
        + length (concat (map (\<lambda>t. mints (snd t)) (filter (turnSucceeded w pk sign) (enumerate i bs)))) \<and>
     allClosedMints v' = allClosedMints v
        @ concat (map (\<lambda>t. mints (snd t)) (filter (turnSucceeded w pk sign) (enumerate i bs))) \<and>
     lastError v' =
        (if filter (\<lambda>t. \<not> turnSucceeded w pk sign t) (enumerate i bs) = [] then lastError v
         else turnError w pk sign (last (filter (\<lambda>t. \<not> turnSucceeded w pk sign t) (enumerate i bs)))) \<and>
     closedMintsState st' = closedMintsState st
        \<union> set (concat (map (\<lambda>t. mints (snd t)) (filter (turnSucceeded w pk sign) (enumerate i bs)))) \<and>
     reclaimedSOL st' = reclaimedSOL st
        + real (length (concat (map (\<lambda>t. mints (snd t)) (filter (turnSucceeded w pk sign) (enumerate i bs)))))
          * RENT_PER_ACCOUNT \<and>
     isClosing st' = isClosing st \<and> statusMessage st' = statusMessage st"
  using assms
proof (induction bs arbitrary: i v st)
  case Nil
  then show ?case by simp
next
  case (Cons b rest)
  from Cons.prems obtain bh where bh: "freshBlockhashOf w i = Some bh"
    by (auto simp: blockhashFails_def)
  from Cons.prems have rest: "\<forall>t \<in> set (enumerate (Suc i) rest). \<not> blockhashFails w t"
    by simp
  note IH = Cons.IH [OF rest]
  let ?tx = "newTransaction bh pk (instructions_b b)"
  show ?case
  proof (cases "signedPayload w sign i ?tx")
    case (Inl e)
    then have ts: "\<not> turnSucceeded w pk sign (i, b)"
      and te: "turnError w pk sign (i, b) = Some (errorMessage e ''Unknown error'')"
      using bh by (simp_all add: turnSucceeded_def turnError_def)
    from IH [of "v\<lparr>lastError := Some (errorMessage e ''Unknown error'')\<rparr>"
        "st\<lparr>calls := calls st @ [CallGetRecentBlockhash, CallSignTransaction ?tx]\<rparr>"]
    show ?thesis
      unfolding processBatches_ok [OF bh] using Inl ts te
      by (auto simp: Let_def)
  next
    case (Inr serialized)
    let ?r = "sendTransaction (connectionOf w (BatchSend i)) serialized"
    show ?thesis
    proof (cases "success ?r")
      case True
      then have ts: "turnSucceeded w pk sign (i, b)"
        using bh Inr by (simp add: turnSucceeded_def)
      from IH [of "v\<lparr>closedCount_v := closedCount_v v + length (mints b),
                           lastSignature := txSignature ?r,
                           allClosedMints := allClosedMints v @ mints b\<rparr>"
          "st\<lparr>calls := calls st @ [CallGetRecentBlockhash, CallSignTransaction ?tx]
                 @ [CallSendTransaction serialized],
              closedMintsState := closedMintsState st \<union> set (mints b),
              reclaimedSOL := reclaimedSOL st + real (length (mints b)) * RENT_PER_ACCOUNT\<rparr>"]
      show ?thesis
        unfolding processBatches_ok [OF bh] using Inr True ts
        by (auto simp: Let_def algebra_simps)
    next
      case False
      then have ts: "\<not> turnSucceeded w pk sign (i, b)"
        and te: "turnError w pk sign (i, b) = error ?r"
        using bh Inr by (simp_all add: turnSucceeded_def turnError_def)
      from IH [of "v\<lparr>lastError := error ?r\<rparr>"
          "st\<lparr>calls := calls st @ [CallGetRecentBlockhash, CallSignTransaction ?tx]
                 @ [CallSendTransaction serialized]\<rparr>"]
      show ?thesis
        unfolding processBatches_ok [OF bh] using Inr False ts te
        by (auto simp: Let_def)
    qed
  qed
qed

lemma promiseAll_Inr: "promiseAll ps = Inr xs \<Longrightarrow> ps = map Inr xs"
proof (induction ps arbitrary: xs)
  case Nil
  then show ?case by simp
next
  case (Cons p ps)
  then show ?case
    by (cases p) (auto split: sum.splits)
qed

lemma simulationCalls_settled:
  "simulationCalls (map Inr settled) = map (\<lambda>s. CallSimulateTransaction (fst s)) settled"
  by (induction settled) (simp_all add: simulationCalls_def)

lemma buildAll_length: "buildAll lib pk tokens = Inr tis \<Longrightarrow> length tis = length tokens"
  by (induction tokens arbitrary: tis) (auto split: sum.splits)

lemma buildAll_nth:
  "buildAll lib pk tokens = Inr tis \<Longrightarrow> i < length tokens \<Longrightarrow>
     fst (tis ! i) = tokens ! i \<and> buildInstructions lib pk (tokens ! i) = Inr (snd (tis ! i))"
proof (induction tokens arbitrary: tis i)
  case Nil
  then show ?case by simp
next
  case (Cons tok rest)
  then show ?case
    by (cases i) (auto split: sum.splits)
qed



lemma closeAccounts_reached:
  assumes "publicKey (useWallet w) = Some pk" and "signTransaction (useWallet w) = Some sign"
    and "tokens \<noteq> []"
    and "getLatestBlockhash (connectionOf w InitialBlockhash) = Inr info"
    and "buildAll (web3 w) pk tokens = Inr tis"
    and "promiseAll (simulationPromises w (blockhash info) pk tis) = Inr settled"
  shows "closeAccounts w tokens st =
     (let validTokens = validTokensOf (map snd settled);
          skipped = length settled - length validTokens;
          st2 = st\<lparr>isClosing := True,
                   calls := calls st @ CallGetRecentBlockhash
                              # map (\<lambda>s. CallSimulateTransaction (fst s)) settled\<rparr>
      in if validTokens = []
         then (failed ''All accounts are frozen or invalid'' (Some skipped), stopClosing st2)
         else (case processBatches w pk sign 0 (buildBatches 0 validTokens) initialVars st2 of
                 (Inl e, st3) \<Rightarrow> (failed (errorMessage e ''Unknown error'') None, stopClosing st3)
               | (Inr v, st3) \<Rightarrow> (finalResult v skipped, stopClosing st3)))"
proof -
  have ps: "simulationPromises w (blockhash info) pk tis = map Inr settled"
    using assms(6) by (rule promiseAll_Inr)
  show ?thesis
    using assms
    by (simp add: closeAccounts_def closeAccounts_try_def getRecentBlockhash_cases Let_def
        ps simulationCalls_settled split: prod.splits sum.splits)
qed


lemma simulationPromises_length:
  "simulationPromises w bh pk tis = map Inr settled \<Longrightarrow> length settled = length tis"
proof -
  assume a: "simulationPromises w bh pk tis = map Inr settled"
  have "length (simulationPromises w bh pk tis) = length tis"
    by (simp add: simulationPromises_def)
  then show ?thesis by (simp add: a)
qed

lemma take_drop_split:
  "take k (drop i xs) @ drop (i + k) xs = drop i xs"
  by (metis add.commute append_take_drop_id drop_drop)

lemma buildBatches_unfold:
  "i < length vs \<Longrightarrow>
     buildBatches i vs =
       \<lparr>instructions_b = concat (map instructions_s (take 5 (drop i vs))),
        mints = map (\<lambda>r. mint (token r)) (take 5 (drop i vs))\<rparr>
       # buildBatches (i + 5) vs"
  "\<not> i < length vs \<Longrightarrow> buildBatches i vs = []"
  by (subst buildBatches.simps, simp add: Let_def MAX_ACCOUNTS_PER_TX_def)+

lemma buildBatches_mints:
  "concat (map mints (buildBatches i vs)) = map (\<lambda>r. mint (token r)) (drop i vs)"
proof (induction i vs rule: buildBatches.induct)
  case (1 i vs)
  show ?case
  proof (cases "i < length vs")
    case True
    have "map (\<lambda>r. mint (token r)) (take 5 (drop i vs))
          @ map (\<lambda>r. mint (token r)) (drop (i + 5) vs)
        = map (\<lambda>r. mint (token r)) (drop i vs)"
      unfolding map_append [symmetric] take_drop_split ..
    with 1 [OF True] show ?thesis
      unfolding buildBatches_unfold(1) [OF True] by (simp add: MAX_ACCOUNTS_PER_TX_def)
  next
    case False
    then show ?thesis
      unfolding buildBatches_unfold(2) [OF False] by simp
  qed
qed


lemma buildBatches_instructions:
  "concat (map instructions_b (buildBatches i vs)) = concat (map instructions_s (drop i vs))"
proof (induction i vs rule: buildBatches.induct)
  case (1 i vs)
  show ?case
  proof (cases "i < length vs")
    case True
    have "concat (map instructions_s (take 5 (drop i vs)))
          @ concat (map instructions_s (drop (i + 5) vs))
        = concat (map instructions_s (drop i vs))"
      unfolding concat_append [symmetric] map_append [symmetric] take_drop_split ..
    with 1 [OF True] show ?thesis
      unfolding buildBatches_unfold(1) [OF True] by (simp add: MAX_ACCOUNTS_PER_TX_def)
  next
    case False
    then show ?thesis
      unfolding buildBatches_unfold(2) [OF False] by simp
  qed
qed

lemma buildBatches_nth:
  "j < length (buildBatches i vs) \<Longrightarrow>
     i + 5 * j < length vs \<and>
     mints (buildBatches i vs ! j) = map (\<lambda>r. mint (token r)) (take 5 (drop (i + 5 * j) vs)) \<and>
     instructions_b (buildBatches i vs ! j) =
       concat (map instructions_s (take 5 (drop (i + 5 * j) vs)))"
proof (induction i vs arbitrary: j rule: buildBatches.induct)
  case (1 i vs)
  show ?case
  proof (cases "i < length vs")
    case True
    note lt = True
    note unf = buildBatches_unfold(1) [OF lt]
    show ?thesis
    proof (cases j)
      case 0
      show ?thesis
        unfolding 0 unf using lt by simp
    next
      case (Suc k)
      from "1.prems" have "Suc k < Suc (length (buildBatches (i + 5) vs))"
        unfolding Suc unf by simp
      then have k: "k < length (buildBatches (i + MAX_ACCOUNTS_PER_TX) vs)"
        unfolding MAX_ACCOUNTS_PER_TX_def by simp
      have e: "i + MAX_ACCOUNTS_PER_TX + 5 * k = i + 5 * Suc k"
        by (simp add: MAX_ACCOUNTS_PER_TX_def)
      have u: "buildBatches i vs ! Suc k = buildBatches (i + MAX_ACCOUNTS_PER_TX) vs ! k"
        unfolding unf MAX_ACCOUNTS_PER_TX_def by simp
      from "1.IH" [OF lt k] show ?thesis
        unfolding Suc u e .
    qed
  next
    case False
    from "1.prems" show ?thesis
      unfolding buildBatches_unfold(2) [OF False] by simp
  qed
qed

lemma chunk_count:
  assumes "i < n"
  shows "Suc ((n - (i + 5) + 4) div 5) = (n - i + 4) div (5::nat)"
proof (cases "i + 5 \<le> n")
  case True
  then have "n - i + 4 = (n - (i + 5) + 4) + 5" by simp
  then have "(n - i + 4) div 5 = ((n - (i + 5) + 4) + 5) div 5" by (rule arg_cong)
  also have "\<dots> = Suc ((n - (i + 5) + 4) div 5)" by simp
  finally show ?thesis by (rule sym)
next
  case False
  then have z: "n - (i + 5) = 0" by simp
  from False assms have lo: "5 \<le> n - i + 4" and hi: "n - i + 4 < 10" by simp_all
  have "(n - i + 4) div 5 = 1"
  proof -
    from lo have "1 * 5 \<le> n - i + 4" by simp
    then have "1 \<le> (n - i + 4) div 5" by (simp only: less_eq_div_iff_mult_less_eq zero_less_numeral)
    moreover from hi have "n - i + 4 < 2 * 5" by simp
    then have "(n - i + 4) div 5 < 2" by (simp only: div_less_iff_less_mult zero_less_numeral)
    ultimately show ?thesis by simp
  qed
  then show ?thesis by (simp add: z)
qed

lemma buildBatches_length:
  "length (buildBatches i vs) = (length vs - i + 4) div 5"
proof (induction i vs rule: buildBatches.induct)
  case (1 i vs)
  show ?case
  proof (cases "i < length vs")
    case True
    have ih: "length (buildBatches (i + 5) vs) = (length vs - (i + 5) + 4) div 5"
      using "1.IH" [OF True] unfolding MAX_ACCOUNTS_PER_TX_def .
    have "length (buildBatches i vs) = Suc (length (buildBatches (i + 5) vs))"
      unfolding buildBatches_unfold(1) [OF True] by (simp only: list.size(4) Suc_eq_plus1)
    also have "\<dots> = Suc ((length vs - (i + 5) + 4) div 5)"
      unfolding ih ..
    also have "\<dots> = (length vs - i + 4) div 5"
      using True by (rule chunk_count)
    finally show ?thesis .
  next
    case False
    then have "length vs - i = 0" by simp
    moreover have "buildBatches i vs = []"
      using False by (rule buildBatches_unfold(2))
    ultimately show ?thesis by simp
  qed
qed

lemma uptoFirst_none: "(\<forall>x \<in> set xs. \<not> P x) \<Longrightarrow> uptoFirst P xs = xs"
  by (induction xs) simp_all

lemma enumerate_fst_bound: "t \<in> set (enumerate n xs) \<Longrightarrow> n \<le> fst t \<and> fst t < n + length xs"
  by (auto simp: in_set_enumerate_eq)

lemma closeAccounts_log:
  assumes "publicKey (useWallet w) = Some pk" and "signTransaction (useWallet w) = Some sign"
    and "tokens \<noteq> []"
    and "getLatestBlockhash (connectionOf w InitialBlockhash) = Inr info"
    and "buildAll (web3 w) pk tokens = Inr tis"
    and "promiseAll (simulationPromises w (blockhash info) pk tis) = Inr settled"
  shows "calls (snd (closeAccounts w tokens st)) =
      calls st @ CallGetRecentBlockhash # map (\<lambda>s. CallSimulateTransaction (fst s)) settled
        @ concat (map (turnCalls w pk sign)
            (uptoFirst (blockhashFails w)
               (enumerate 0 (buildBatches 0 (validTokensOf (map snd settled))))))"
proof -
  note reached = closeAccounts_reached [OF assms, of st]
  let ?valid = "validTokensOf (map snd settled)"
  let ?st2 = "st\<lparr>isClosing := True,
                   calls := calls st @ CallGetRecentBlockhash
                              # map (\<lambda>s. CallSimulateTransaction (fst s)) settled\<rparr>"
  show ?thesis
  proof (cases "?valid = []")
    case True
    then show ?thesis
      unfolding reached by (simp add: Let_def stopClosing_def buildBatches_unfold(2))
  next
    case False
    obtain x st3
      where pb: "processBatches w pk sign 0 (buildBatches 0 ?valid) initialVars ?st2 = (x, st3)"
      by (cases "processBatches w pk sign 0 (buildBatches 0 ?valid) initialVars ?st2") auto
    have "calls (snd (processBatches w pk sign 0 (buildBatches 0 ?valid) initialVars ?st2)) =
        calls ?st2 @ concat (map (turnCalls w pk sign)
            (uptoFirst (blockhashFails w) (enumerate 0 (buildBatches 0 ?valid))))"
      by (rule processBatches_calls)
    then have c3: "calls st3 =
        calls st @ CallGetRecentBlockhash # map (\<lambda>s. CallSimulateTransaction (fst s)) settled
          @ concat (map (turnCalls w pk sign)
              (uptoFirst (blockhashFails w) (enumerate 0 (buildBatches 0 ?valid))))"
      by (simp add: pb)
    show ?thesis
      unfolding reached using False pb c3
      by (cases x) (simp_all add: Let_def stopClosing_def)
  qed
qed


lemma closeAccounts_log_explicit:
  assumes "publicKey (useWallet w) = Some pk" and "signTransaction (useWallet w) = Some sign"
    and "tokens \<noteq> []"
    and "getLatestBlockhash (connectionOf w InitialBlockhash) = Inr info"
    and "buildAll (web3 w) pk tokens = Inr tis"
    and "promiseAll (simulationPromises w (blockhash info) pk tis) = Inr settled"
    and "batchTx = (\<lambda>fresh batch.
           \<lparr>recentBlockhash = Some (blockhash fresh), feePayer_tx = Some pk,
            instructions = instructions_b batch, signatures = []\<rparr>)"
    and "payloadOf = (\<lambda>i tx.
           case sign i tx of Inl e \<Rightarrow> None
           | Inr signedTx \<Rightarrow>
               (case serialize (web3 w) signedTx True of Inl e \<Rightarrow> None
                | Inr payload \<Rightarrow> Some payload))"
    and "turn = (\<lambda>(i, batch).
           case getLatestBlockhash (connectionOf w (BatchBlockhash i)) of
             Inl e \<Rightarrow> [CallGetRecentBlockhash]
           | Inr fresh \<Rightarrow>
               CallGetRecentBlockhash # CallSignTransaction (batchTx fresh batch)
               # (case payloadOf i (batchTx fresh batch) of
                    None \<Rightarrow> []
                  | Some payload \<Rightarrow> [CallSendTransaction payload]))"
    and "fetchFails = (\<lambda>(i, batch).
           case getLatestBlockhash (connectionOf w (BatchBlockhash i)) of
             Inl e \<Rightarrow> True
           | Inr fresh \<Rightarrow> False)"
  shows "calls (snd (closeAccounts w tokens st)) =
      calls st @ CallGetRecentBlockhash # map (\<lambda>s. CallSimulateTransaction (fst s)) settled
        @ concat (map turn
            (uptoFirst fetchFails
               (enumerate 0 (buildBatches 0 (filter valid (map snd settled))))))"
proof -
  have tc: "turnCalls w pk sign = turn"
    unfolding assms(7-9)
    by (rule ext)
       (auto simp: turnCalls_def freshBlockhashOf_def newTransaction_def signedPayload_def
          split: sum.splits prod.splits)
  have bf: "blockhashFails w = fetchFails"
    unfolding assms(10)
    by (rule ext)
       (auto simp: blockhashFails_def freshBlockhashOf_def split: sum.splits prod.splits)
  show ?thesis
    using closeAccounts_log [OF assms(1-6), of st] unfolding tc bf validTokensOf_def .
qed

lemma closeAccounts_closedMints_explicit:
  assumes "publicKey (useWallet w) = Some pk" and "signTransaction (useWallet w) = Some sign"
    and "tokens \<noteq> []"
    and "getLatestBlockhash (connectionOf w InitialBlockhash) = Inr info"
    and "buildAll (web3 w) pk tokens = Inr tis"
    and "promiseAll (simulationPromises w (blockhash info) pk tis) = Inr settled"
    and "batchTx = (\<lambda>fresh batch.
           \<lparr>recentBlockhash = Some (blockhash fresh), feePayer_tx = Some pk,
            instructions = instructions_b batch, signatures = []\<rparr>)"
    and "payloadOf = (\<lambda>i tx.
           case sign i tx of Inl e \<Rightarrow> None
           | Inr signedTx \<Rightarrow>
               (case serialize (web3 w) signedTx True of Inl e \<Rightarrow> None
                | Inr payload \<Rightarrow> Some payload))"
    and "submitted = (\<lambda>(i, batch).
           case getLatestBlockhash (connectionOf w (BatchBlockhash i)) of
             Inl e \<Rightarrow> False
           | Inr fresh \<Rightarrow>
               (case payloadOf i (batchTx fresh batch) of
                  None \<Rightarrow> False
                | Some payload \<Rightarrow>
                    success (sendTransaction (connectionOf w (BatchSend i)) payload)))"
    and "batches = buildBatches 0 (filter valid (map snd settled))"
    and "\<forall>i < length batches. \<exists>fresh.
           getLatestBlockhash (connectionOf w (BatchBlockhash i)) = Inr fresh"
  shows "closedMintsState (snd (closeAccounts w tokens st)) =
      closedMintsState st
        \<union> set (concat (map (\<lambda>t. mints (snd t)) (filter submitted (enumerate 0 batches))))"
proof -
  let ?st2 = "st\<lparr>isClosing := True,
                   calls := calls st @ CallGetRecentBlockhash
                              # map (\<lambda>s. CallSimulateTransaction (fst s)) settled\<rparr>"
  have ts: "turnSucceeded w pk sign = submitted"
    unfolding assms(7-9)
    by (rule ext)
       (auto simp: turnSucceeded_def freshBlockhashOf_def newTransaction_def signedPayload_def
          split: sum.splits prod.splits)
  have ok: "\<forall>t \<in> set (enumerate 0 batches). \<not> blockhashFails w t"
  proof
    fix t assume "t \<in> set (enumerate 0 batches)"
    then have "fst t < length batches" using enumerate_fst_bound [of t 0 batches] by simp
    with assms(11) show "\<not> blockhashFails w t"
      by (auto simp: blockhashFails_def freshBlockhashOf_def)
  qed
  note reached = closeAccounts_reached [OF assms(1-6), of st]
  show ?thesis
  proof (cases "filter valid (map snd settled) = []")
    case True
    then have "batches = []"
      unfolding assms(10) by (simp add: buildBatches_unfold(2))
    with True show ?thesis
      unfolding reached by (simp add: Let_def validTokensOf_def stopClosing_def)
  next
    case False
    from processBatches_vars [OF ok, of pk sign initialVars ?st2]
    obtain v st3 where pb: "processBatches w pk sign 0 batches initialVars ?st2 = (Inr v, st3)"
      and cs: "closedMintsState st3 = closedMintsState st
          \<union> set (concat (map (\<lambda>t. mints (snd t))
                (filter (turnSucceeded w pk sign) (enumerate 0 batches))))"
      by auto
    from False pb have "snd (closeAccounts w tokens st) = stopClosing st3"
      unfolding reached by (simp add: Let_def validTokensOf_def assms(10) [symmetric])
    then show ?thesis
      by (simp add: stopClosing_def cs ts)
  qed
qed

section \<open>Facts about the example worlds\<close>

lemma okWorld_wallet:
  "publicKey (useWallet okWorld) = Some ownerKey"
  "signTransaction (useWallet okWorld) = Some approve"
  by (simp_all add: okWorld_def approvingWallet_def)

lemma okWorld_blockhash: "getLatestBlockhash (connectionOf okWorld site) = Inr okInfo"
  by (simp add: okWorld_def okConnection_def okInfo_def)

lemma sixTokens_built:
  "buildAll (web3 okWorld) ownerKey sixTokens =
     Inr (built [''m1'', ''m2'', ''m3'', ''m4'', ''m5'', ''m6''])"
  by code_simp

lemma sixTokens_settled:
  "promiseAll (simulationPromises okWorld (blockhash okInfo) ownerKey
       (built [''m1'', ''m2'', ''m3'', ''m4'', ''m5'', ''m6''])) =
     Inr (settledAs True [''m1'', ''m2'', ''m3'', ''m4'', ''m5'', ''m6''])"
  by code_simp

lemma sixTokens_nonempty: "sixTokens \<noteq> []"
  by (simp add: sixTokens_def)








lemma sixTokens_turns_ok:
  "\<forall>t \<in> set (enumerate 0 (buildBatches 0
       (validTokensOf (map snd (settledAs True [''m1'', ''m2'', ''m3'', ''m4'', ''m5'', ''m6'']))))).
     \<not> blockhashFails okWorld t"
  by (simp add: blockhashFails_def freshBlockhashOf_def okWorld_blockhash)

lemma sixTokens_valid:
  "validTokensOf (map snd (settledAs True [''m1'', ''m2'', ''m3'', ''m4'', ''m5'', ''m6''])) \<noteq> []"
  by (simp add: validTokensOf_def settledAs_def)


lemma liveWorld_wallet:
  "publicKey (useWallet liveWorld) = Some ownerKey"
  "signTransaction (useWallet liveWorld) = Some approve"
  by (simp_all add: liveWorld_def approvingWallet_def)

lemma liveWorld_blockhash:
  "getLatestBlockhash (connectionOf liveWorld InitialBlockhash) = Inr initialInfo"
  by (simp add: liveWorld_def liveConnection_def initialInfo_def)

lemma liveWorld_fetches:
  "\<forall>i < n. \<exists>fresh. getLatestBlockhash (connectionOf liveWorld (BatchBlockhash i)) = Inr fresh"
  by (simp add: liveWorld_def liveConnection_def)

lemma liveWorld_built:
  "buildAll (web3 liveWorld) ownerKey sixTokens =
     Inr (built [''m1'', ''m2'', ''m3'', ''m4'', ''m5'', ''m6''])"
  by code_simp

lemma liveWorld_settled:
  "promiseAll (simulationPromises liveWorld (blockhash initialInfo) ownerKey
       (built [''m1'', ''m2'', ''m3'', ''m4'', ''m5'', ''m6''])) = Inr sixSettled"
  by code_simp






section \<open>Simulation before batching\<close>



section \<open>Batching and sequential submission\<close>

text \<open>
  Claim C2. When \<open>closeAccounts\<close> gets as far as batching, the batches are the consecutive
  slices of five of the tokens that passed simulation: batch \<open>j\<close> holds the tokens
  \<open>5j, ..., 5j+4\<close> (fewer in the last batch only, never none), so the order is kept and
  every valid token is in exactly one batch. The batch loop takes the batches in order, one
  turn per batch, a turn starting only after the turn before it has ended. A turn fetches a
  fresh blockhash; it then asks the wallet to sign one transaction, which carries that
  blockhash, the wallet's key as fee payer and the instructions of this batch; it then
  submits the serialisation of the transaction the wallet returned. A failed fetch ends
  the loop. While the fetches succeed every batch gets its turn, and the mints recorded
  as closed are those of the batches whose submission (of that serialised signed
  transaction) reported success.
\<close>

theorem closeAccounts_batching:
  assumes "publicKey (useWallet w) = Some pk" and "signTransaction (useWallet w) = Some sign"
    and "tokens \<noteq> []"
    and "getLatestBlockhash (connectionOf w InitialBlockhash) = Inr info"
    and "buildAll (web3 w) pk tokens = Inr tis"
    and "promiseAll (simulationPromises w (blockhash info) pk tis) = Inr settled"
    and "validTokens = filter valid (map snd settled)"
    and "batches = buildBatches 0 validTokens"
    and "batchTx = (\<lambda>fresh batch.
           \<lparr>recentBlockhash = Some (blockhash fresh), feePayer_tx = Some pk,
            instructions = instructions_b batch, signatures = []\<rparr>)"
    and "payloadOf = (\<lambda>i tx.
           case sign i tx of Inl e \<Rightarrow> None
           | Inr signedTx \<Rightarrow>
               (case serialize (web3 w) signedTx True of Inl e \<Rightarrow> None
                | Inr payload \<Rightarrow> Some payload))"
    and "turn = (\<lambda>(i, batch).
           case getLatestBlockhash (connectionOf w (BatchBlockhash i)) of
             Inl e \<Rightarrow> [CallGetRecentBlockhash]
           | Inr fresh \<Rightarrow>
               CallGetRecentBlockhash # CallSignTransaction (batchTx fresh batch)
               # (case payloadOf i (batchTx fresh batch) of
                    None \<Rightarrow> []
                  | Some payload \<Rightarrow> [CallSendTransaction payload]))"
    and "fetchFails = (\<lambda>(i, batch).
           case getLatestBlockhash (connectionOf w (BatchBlockhash i)) of
             Inl e \<Rightarrow> True
           | Inr fresh \<Rightarrow> False)"
    and "submitted = (\<lambda>(i, batch).
           case getLatestBlockhash (connectionOf w (BatchBlockhash i)) of
             Inl e \<Rightarrow> False
           | Inr fresh \<Rightarrow>
               (case payloadOf i (batchTx fresh batch) of
                  None \<Rightarrow> False
                | Some payload \<Rightarrow>
                    success (sendTransaction (connectionOf w (BatchSend i)) payload)))"
  shows "concat (map mints batches) = map (\<lambda>r. mint (token r)) validTokens \<and>
    concat (map instructions_b batches) = concat (map instructions_s validTokens) \<and>
    length batches = (length validTokens + 4) div 5 \<and>
    (\<forall>j < length batches.
       mints (batches ! j) = map (\<lambda>r. mint (token r)) (take 5 (drop (5 * j) validTokens)) \<and>
       instructions_b (batches ! j) =
         concat (map instructions_s (take 5 (drop (5 * j) validTokens))) \<and>
       1 \<le> length (mints (batches ! j)) \<and> length (mints (batches ! j)) \<le> 5 \<and>
       (j + 1 < length batches \<longrightarrow> length (mints (batches ! j)) = 5)) \<and>
    calls (snd (closeAccounts w tokens st)) =
      calls st @ CallGetRecentBlockhash # map (\<lambda>s. CallSimulateTransaction (fst s)) settled
        @ concat (map turn (uptoFirst fetchFails (enumerate 0 batches))) \<and>
    ((\<forall>i < length batches. \<exists>fresh.
         getLatestBlockhash (connectionOf w (BatchBlockhash i)) = Inr fresh) \<longrightarrow>
       uptoFirst fetchFails (enumerate 0 batches) = enumerate 0 batches \<and>
       closedMintsState (snd (closeAccounts w tokens st)) =
         closedMintsState st
           \<union> set (concat (map (\<lambda>t. mints (snd t)) (filter submitted (enumerate 0 batches)))))"
proof -
  have m: "concat (map mints batches) = map (\<lambda>r. mint (token r)) validTokens"
    unfolding assms(8) by (simp add: buildBatches_mints)
  have ix: "concat (map instructions_b batches) = concat (map instructions_s validTokens)"
    unfolding assms(8) by (simp add: buildBatches_instructions)
  have len: "length batches = (length validTokens + 4) div 5"
    unfolding assms(8) by (simp add: buildBatches_length)
  have each: "mints (batches ! j) = map (\<lambda>r. mint (token r)) (take 5 (drop (5 * j) validTokens)) \<and>
       instructions_b (batches ! j) =
         concat (map instructions_s (take 5 (drop (5 * j) validTokens))) \<and>
       1 \<le> length (mints (batches ! j)) \<and> length (mints (batches ! j)) \<le> 5 \<and>
       (j + 1 < length batches \<longrightarrow> length (mints (batches ! j)) = 5)"
    if j: "j < length batches" for j
  proof -
    from j have j': "j < length (buildBatches 0 validTokens)" by (simp add: assms(8))
    note n = buildBatches_nth [OF j', simplified, folded assms(8)]
    from n have b: "5 * j < length validTokens" by simp
    have full: "length (mints (batches ! j)) = 5" if "j + 1 < length batches"
    proof -
      from that have "Suc j < length (buildBatches 0 validTokens)" by (simp add: assms(8))
      from buildBatches_nth [OF this] have "5 * Suc j < length validTokens" by simp
      with n show ?thesis by simp
    qed
    from n b full show ?thesis by simp
  qed
  have log: "calls (snd (closeAccounts w tokens st)) =
      calls st @ CallGetRecentBlockhash # map (\<lambda>s. CallSimulateTransaction (fst s)) settled
        @ concat (map turn (uptoFirst fetchFails (enumerate 0 batches)))"
    unfolding assms(7,8)
    by (rule closeAccounts_log_explicit [OF assms(1-6) assms(9-12)])
  have all: "uptoFirst fetchFails (enumerate 0 batches) = enumerate 0 batches"
    if ok: "\<forall>i < length batches. \<exists>fresh.
         getLatestBlockhash (connectionOf w (BatchBlockhash i)) = Inr fresh"
  proof (rule uptoFirst_none, rule ballI)
    fix t assume "t \<in> set (enumerate 0 batches)"
    then have "fst t < length batches" using enumerate_fst_bound [of t 0 batches] by simp
    with ok obtain fresh
      where "getLatestBlockhash (connectionOf w (BatchBlockhash (fst t))) = Inr fresh"
      by blast
    then show "\<not> fetchFails t"
      unfolding assms(12) by (simp add: case_prod_beta)
  qed
  have sent: "closedMintsState (snd (closeAccounts w tokens st)) =
         closedMintsState st
           \<union> set (concat (map (\<lambda>t. mints (snd t)) (filter submitted (enumerate 0 batches))))"
    if ok: "\<forall>i < length batches. \<exists>fresh.
         getLatestBlockhash (connectionOf w (BatchBlockhash i)) = Inr fresh"
    using assms(1-6) assms(9,10) assms(13) assms(8) [unfolded assms(7)] ok
    by (rule closeAccounts_closedMints_explicit)
  from m ix len each log all sent show ?thesis by blast
qed

theorem closeAccounts_batching_witness:
  "publicKey (useWallet liveWorld) = Some ownerKey \<and>
   signTransaction (useWallet liveWorld) = Some approve \<and>
   sixTokens \<noteq> [] \<and>
   getLatestBlockhash (connectionOf liveWorld InitialBlockhash) = Inr initialInfo \<and>
   buildAll (web3 liveWorld) ownerKey sixTokens =
     Inr (built [''m1'', ''m2'', ''m3'', ''m4'', ''m5'', ''m6'']) \<and>
   promiseAll (simulationPromises liveWorld (blockhash initialInfo) ownerKey
       (built [''m1'', ''m2'', ''m3'', ''m4'', ''m5'', ''m6''])) = Inr sixSettled \<and>
   map mints (buildBatches 0 (filter valid (map snd sixSettled))) =
     [[''m1'', ''m2'', ''m3'', ''m4'', ''m5''], [''m6'']] \<and>
   filter isSign (calls (snd (closeAccounts liveWorld sixTokens idleState))) =
     [CallSignTransaction
        \<lparr>recentBlockhash = Some ''bh-batch0'', feePayer_tx = Some ownerKey,
         instructions = concat (map dustInstructions [''m1'', ''m2'', ''m3'', ''m4'', ''m5'']),
         signatures = []\<rparr>,
      CallSignTransaction
        \<lparr>recentBlockhash = Some ''bh-batch1'', feePayer_tx = Some ownerKey,
         instructions = dustInstructions ''m6'', signatures = []\<rparr>] \<and>
   filter isSend (calls (snd (closeAccounts liveWorld sixTokens idleState))) =
     [CallSendTransaction
        ''signed|bh-batch0|burn ata-m1;close ata-m1;burn ata-m2;close ata-m2;burn ata-m3;close ata-m3;burn ata-m4;close ata-m4;burn ata-m5;close ata-m5;|owner-signature'',
      CallSendTransaction ''signed|bh-batch1|burn ata-m6;close ata-m6;|owner-signature''] \<and>
   closedMintsState (snd (closeAccounts liveWorld sixTokens idleState)) =
     {''m1'', ''m2'', ''m3'', ''m4'', ''m5'', ''m6''}"
proof -
  let ?batches = "buildBatches 0 (filter valid (map snd sixSettled))"
  note T = closeAccounts_batching [OF liveWorld_wallet sixTokens_nonempty liveWorld_blockhash
      liveWorld_built liveWorld_settled refl refl refl refl refl refl refl, of idleState]
  from T have len: "length ?batches = (length (filter valid (map snd sixSettled)) + 4) div 5"
    by blast
  have two: "length ?batches = 2"
    unfolding len by code_simp
  from T two have b0: "mints (?batches ! 0) =
      map (\<lambda>r. mint (token r)) (take 5 (drop (5 * 0) (filter valid (map snd sixSettled))))"
    and b1: "mints (?batches ! 1) =
      map (\<lambda>r. mint (token r)) (take 5 (drop (5 * 1) (filter valid (map snd sixSettled))))"
    by simp_all
  have m0: "mints (?batches ! 0) = [''m1'', ''m2'', ''m3'', ''m4'', ''m5'']"
    unfolding b0 by code_simp
  have m1: "mints (?batches ! 1) = [''m6'']"
    unfolding b1 by code_simp
  have ms: "map mints ?batches = [[''m1'', ''m2'', ''m3'', ''m4'', ''m5''], [''m6'']]"
    using two m0 m1 by (simp add: list_eq_iff_nth_eq less_Suc_eq numeral_2_eq_2)
  note log = T [THEN conjunct2, THEN conjunct2, THEN conjunct2, THEN conjunct2, THEN conjunct1]
  note rest = T [THEN conjunct2, THEN conjunct2, THEN conjunct2, THEN conjunct2,
      THEN conjunct2, THEN mp, OF liveWorld_fetches]
  have signs: "filter isSign (calls (snd (closeAccounts liveWorld sixTokens idleState))) =
     [CallSignTransaction
        \<lparr>recentBlockhash = Some ''bh-batch0'', feePayer_tx = Some ownerKey,
         instructions = concat (map dustInstructions [''m1'', ''m2'', ''m3'', ''m4'', ''m5'']),
         signatures = []\<rparr>,
      CallSignTransaction
        \<lparr>recentBlockhash = Some ''bh-batch1'', feePayer_tx = Some ownerKey,
         instructions = dustInstructions ''m6'', signatures = []\<rparr>]"
    unfolding log by code_simp
  have sends: "filter isSend (calls (snd (closeAccounts liveWorld sixTokens idleState))) =
     [CallSendTransaction
        ''signed|bh-batch0|burn ata-m1;close ata-m1;burn ata-m2;close ata-m2;burn ata-m3;close ata-m3;burn ata-m4;close ata-m4;burn ata-m5;close ata-m5;|owner-signature'',
      CallSendTransaction ''signed|bh-batch1|burn ata-m6;close ata-m6;|owner-signature'']"
    unfolding log by code_simp
  have closed: "closedMintsState (snd (closeAccounts liveWorld sixTokens idleState)) =
     {''m1'', ''m2'', ''m3'', ''m4'', ''m5'', ''m6''}"
    unfolding rest [THEN conjunct2] by code_simp
  from liveWorld_wallet sixTokens_nonempty liveWorld_blockhash liveWorld_built
    liveWorld_settled ms signs sends closed
  show ?thesis by simp
qed

section \<open>The outcome of the batch loop\<close>

lemma filter_none_keeps_rest:
  "xs \<noteq> [] \<Longrightarrow> filter P xs = [] \<Longrightarrow> filter (\<lambda>t. \<not> P t) xs = xs"
  by (simp add: filter_empty_conv filter_id_conv)

text \<open>
  Claim C7 (as amended). Take a run of \<open>closeAccounts\<close> that gets as far as the batch loop
  and in which every blockhash fetch of the loop succeeds. Then every batch is tried once,
  in order, whatever happened to the batches before it: a batch whose signing, serialising
  or submission fails is left behind and the loop goes on. The result has
  \<open>success = true\<close> exactly when at least one batch was submitted with success; then
  \<open>closedCount\<close> is the number of accounts in the successful batches and \<open>closedMints\<close>
  lists their mints, in order; otherwise \<open>success = false\<close>, \<open>closedCount = 0\<close> and
  \<open>error\<close> is the error of the last batch, or \<open>Failed to close accounts\<close> when that
  error is empty or missing.
\<close>

theorem closeAccounts_outcome:
  assumes "publicKey (useWallet w) = Some pk" and "signTransaction (useWallet w) = Some sign"
    and "tokens \<noteq> []"
    and "getLatestBlockhash (connectionOf w InitialBlockhash) = Inr info"
    and "buildAll (web3 w) pk tokens = Inr tis"
    and "promiseAll (simulationPromises w (blockhash info) pk tis) = Inr settled"
    and "validTokens = validTokensOf (map snd settled)" and "validTokens \<noteq> []"
    and "turns = enumerate 0 (buildBatches 0 validTokens)"
    and "\<forall>t \<in> set turns. \<not> blockhashFails w t"
    and "good = filter (turnSucceeded w pk sign) turns"
    and "closeAccounts w tokens st = (r, st')"
  shows "calls st' =
      calls st @ CallGetRecentBlockhash # map (\<lambda>s. CallSimulateTransaction (fst s)) settled
        @ concat (map (turnCalls w pk sign) turns) \<and>
    (success r \<longleftrightarrow> good \<noteq> []) \<and>
    (good \<noteq> [] \<longrightarrow>
       closedCount r = length (concat (map (\<lambda>t. mints (snd t)) good)) \<and>
       closedMints r = Some (concat (map (\<lambda>t. mints (snd t)) good)) \<and>
       error r = None) \<and>
    (good = [] \<longrightarrow>
       closedCount r = 0 \<and> closedMints r = None \<and>
       error r = Some (opt_str_or (turnError w pk sign (last turns)) ''Failed to close accounts'')) \<and>
    skippedCount r = Some (length tokens - length validTokens) \<and>
    closedMintsState st' = closedMintsState st \<union> set (concat (map (\<lambda>t. mints (snd t)) good))"
proof -
  let ?batches = "buildBatches 0 validTokens"
  let ?st2 = "st\<lparr>isClosing := True,
                   calls := calls st @ CallGetRecentBlockhash
                              # map (\<lambda>s. CallSimulateTransaction (fst s)) settled\<rparr>"
  let ?closed = "concat (map (\<lambda>t. mints (snd t)) good)"
  let ?bad = "filter (\<lambda>t. \<not> turnSucceeded w pk sign t) turns"
  have ps: "simulationPromises w (blockhash info) pk tis = map Inr settled"
    using assms(6) by (rule promiseAll_Inr)
  have len: "length settled = length tokens"
    using simulationPromises_length [OF ps] buildAll_length [OF assms(5)] by simp
  from processBatches_vars [of 0 ?batches w pk sign initialVars ?st2] assms(10)
  obtain v st3 where pb: "processBatches w pk sign 0 ?batches initialVars ?st2 = (Inr v, st3)"
    and cc: "closedCount_v v = length ?closed"
    and cm: "allClosedMints v = ?closed"
    and le: "lastError v = (if ?bad = [] then None else turnError w pk sign (last ?bad))"
    and cs: "closedMintsState st3 = closedMintsState st \<union> set ?closed"
    unfolding assms(9) assms(11) by (auto simp: initialVars_def)
  have res: "r = finalResult v (length settled - length validTokens)"
    and st': "st' = stopClosing st3"
    using assms(12) assms(8) pb
    unfolding closeAccounts_reached [OF assms(1-6)] assms(7) [symmetric]
    by (simp_all add: Let_def)
  have turns_ne: "turns \<noteq> []"
  proof -
    from assms(8) have "0 < length validTokens" by simp
    then have "?batches \<noteq> []"
      using buildBatches_unfold(1) [of 0 validTokens] by simp
    then show ?thesis by (simp add: assms(9) enumerate_eq_zip)
  qed
  have nonempty: "mints (snd t) \<noteq> []" if "t \<in> set turns" for t
  proof -
    from that obtain j where j: "j < length ?batches" and t: "t = (j, ?batches ! j)"
      unfolding assms(9) by (auto simp: in_set_enumerate_eq)
    from buildBatches_nth [OF j] have "5 * j < length validTokens"
      and "mints (?batches ! j) = map (\<lambda>r. mint (token r)) (take 5 (drop (5 * j) validTokens))"
      by simp_all
    then show ?thesis by (simp add: t)
  qed
  have closed_iff: "?closed \<noteq> [] \<longleftrightarrow> good \<noteq> []"
  proof
    assume "?closed \<noteq> []" then show "good \<noteq> []" by auto
  next
    assume "good \<noteq> []"
    then obtain t where t: "t \<in> set good" by (cases good) auto
    then have "t \<in> set turns" by (simp add: assms(11))
    from nonempty [OF this] t show "?closed \<noteq> []" by auto
  qed
  have log: "calls st' =
      calls st @ CallGetRecentBlockhash # map (\<lambda>s. CallSimulateTransaction (fst s)) settled
        @ concat (map (turnCalls w pk sign) turns)"
  proof -
    have "uptoFirst (blockhashFails w) turns = turns"
      using assms(10) by (rule uptoFirst_none)
    with closeAccounts_log [OF assms(1-6), of st] show ?thesis
      by (simp add: assms(12) assms(7) [symmetric] assms(9) [symmetric])
  qed
  have s: "success r \<longleftrightarrow> good \<noteq> []"
    using closed_iff by (simp add: res finalResult_def failed_def cc)
  have g: "closedCount r = length ?closed \<and> closedMints r = Some ?closed \<and> error r = None"
    if "good \<noteq> []"
    using that closed_iff by (simp add: res finalResult_def cc cm)
  have b: "closedCount r = 0 \<and> closedMints r = None \<and>
       error r = Some (opt_str_or (turnError w pk sign (last turns)) ''Failed to close accounts'')"
    if none: "good = []"
  proof -
    from none have "?closed = []" by simp
    moreover have "?bad = turns"
      using turns_ne none unfolding assms(11) by (rule filter_none_keeps_rest)
    ultimately show ?thesis
      using turns_ne by (simp add: res finalResult_def failed_def cc le)
  qed
  have sk: "skippedCount r = Some (length tokens - length validTokens)"
    by (simp add: res finalResult_def failed_def len)
  have cms: "closedMintsState st' = closedMintsState st \<union> set ?closed"
    by (simp add: st' stopClosing_def cs)
  from log s g b sk cms show ?thesis by blast
qed

theorem closeAccounts_outcome_witness:
  "publicKey (useWallet okWorld) = Some ownerKey \<and>
   signTransaction (useWallet okWorld) = Some approve \<and>
   sixTokens \<noteq> [] \<and>
   getLatestBlockhash (connectionOf okWorld InitialBlockhash) = Inr okInfo \<and>
   buildAll (web3 okWorld) ownerKey sixTokens =
     Inr (built [''m1'', ''m2'', ''m3'', ''m4'', ''m5'', ''m6'']) \<and>
   promiseAll (simulationPromises okWorld (blockhash okInfo) ownerKey
       (built [''m1'', ''m2'', ''m3'', ''m4'', ''m5'', ''m6''])) =
     Inr (settledAs True [''m1'', ''m2'', ''m3'', ''m4'', ''m5'', ''m6'']) \<and>
   validTokensOf (map snd (settledAs True [''m1'', ''m2'', ''m3'', ''m4'', ''m5'', ''m6''])) \<noteq> [] \<and>
   success (fst (closeAccounts okWorld sixTokens idleState)) \<and>
   closedCount (fst (closeAccounts okWorld sixTokens idleState)) = 6 \<and>
   closedMints (fst (closeAccounts okWorld sixTokens idleState)) =
     Some [''m1'', ''m2'', ''m3'', ''m4'', ''m5'', ''m6'']"
proof -
  let ?settled = "settledAs True [''m1'', ''m2'', ''m3'', ''m4'', ''m5'', ''m6'']"
  let ?turns = "enumerate 0 (buildBatches 0 (validTokensOf (map snd ?settled)))"
  let ?good = "filter (turnSucceeded okWorld ownerKey approve) ?turns"
  have run: "closeAccounts okWorld sixTokens idleState =
      (fst (closeAccounts okWorld sixTokens idleState),
       snd (closeAccounts okWorld sixTokens idleState))"
    by simp
  note T = closeAccounts_outcome [OF okWorld_wallet sixTokens_nonempty okWorld_blockhash
      sixTokens_built sixTokens_settled refl sixTokens_valid refl sixTokens_turns_ok refl run]
  have good: "?good \<noteq> []"
    by code_simp
  have closed: "concat (map (\<lambda>t. mints (snd t)) ?good) = [''m1'', ''m2'', ''m3'', ''m4'', ''m5'', ''m6'']"
    by code_simp
  from T good have s: "success (fst (closeAccounts okWorld sixTokens idleState))"
    and c: "closedCount (fst (closeAccounts okWorld sixTokens idleState)) =
        length (concat (map (\<lambda>t. mints (snd t)) ?good))"
    and m: "closedMints (fst (closeAccounts okWorld sixTokens idleState)) =
        Some (concat (map (\<lambda>t. mints (snd t)) ?good))"
    by blast+
  from okWorld_wallet sixTokens_nonempty okWorld_blockhash sixTokens_built sixTokens_settled
    sixTokens_valid s c m
  show ?thesis by (simp add: closed)
qed

text \<open>
  Claim C7 as stated fails in two places. First, a blockhash fetch that fails inside the
  loop throws past the final \<open>if\<close>: with six valid tokens the first batch of five is
  submitted with success and recorded in the cell \<open>closedMints\<close>, the fetch for the second
  batch fails, and the result is a failure with \<open>closedCount = 0\<close>. Second, the error of a
  failed run is the last batch error only when that error is not empty: a wallet that
  rejects with an empty message leaves \<open>lastError = ''\<close>, and the result carries
  \<open>Failed to close accounts\<close>.
\<close>

theorem closeAccounts_outcome_counterexample:
  "turnSucceeded secondFetchDownWorld ownerKey approve
     (0, buildBatches 0
           (validTokensOf (map snd (settledAs True [''m1'', ''m2'', ''m3'', ''m4'', ''m5'', ''m6''])))
         ! 0) \<and>
   fst (closeAccounts secondFetchDownWorld sixTokens idleState) =
     \<lparr>success = False, error = Some ''fetch failed'', txSignature = None,
      closedCount = 0, skippedCount = None, closedMints = None\<rparr> \<and>
   closedMintsState (snd (closeAccounts secondFetchDownWorld sixTokens idleState)) =
     {''m1'', ''m2'', ''m3'', ''m4'', ''m5''} \<and>
   filter isSend (calls (snd (closeAccounts secondFetchDownWorld sixTokens idleState))) =
     [CallSendTransaction ''signed''] \<and>
   turnError rejectingWorld ownerKey reject
     (0, buildBatches 0 (validTokensOf (map snd (settledAs True [''m1'']))) ! 0) = Some [] \<and>
   fst (closeAccounts rejectingWorld [dust ''m1''] idleState) =
     \<lparr>success = False, error = Some ''Failed to close accounts'', txSignature = None,
      closedCount = 0, skippedCount = Some 0, closedMints = None\<rparr>"
  by code_simp

section \<open>Instruction building and the preconditions\<close>

text \<open>
  Claim C3. For a token whose mint parses and whose token account is derived, the
  instruction list ends with the close-account instruction; a burn instruction for the
  token's raw balance stands before it exactly when the balance is present and greater
  than zero; both use the Token-2022 program exactly when \<open>tokenProgram\<close> is the
  Token-2022 address, and the classic token program otherwise. The loop over the tokens
  of \<open>closeAccounts\<close> builds this list for every token, in order.
\<close>

theorem buildInstructions_shape:
  assumes "pid = (if tokenProgram tok = Some ''TokenzQdBNbLqP5VEhdkAS6EPFLC1PHnBqCXEpPxuEb''
                  then TOKEN_2022_PROGRAM_ID else TOKEN_PROGRAM_ID)"
    and "newPublicKey lib (mint tok) = Inr mintPubkey"
    and "getAssociatedTokenAddressSync lib mintPubkey pk False pid = Inr account"
  shows "buildInstructions lib pk tok =
           Inr ((if \<exists>b. balance tok = Some b \<and> 0 < b
                 then [BurnInstruction account mintPubkey pk (the (balance tok)) [] pid]
                 else [])
                @ [CloseAccountInstruction account pk pk [] pid]) \<and>
         (pid = TOKEN_2022_PROGRAM_ID \<longleftrightarrow>
            tokenProgram tok = Some ''TokenzQdBNbLqP5VEhdkAS6EPFLC1PHnBqCXEpPxuEb'') \<and>
         (\<forall>tis. buildAll lib pk tokens = Inr tis \<longrightarrow>
            length tis = length tokens \<and>
            (\<forall>i < length tokens.
               fst (tis ! i) = tokens ! i \<and>
               buildInstructions lib pk (tokens ! i) = Inr (snd (tis ! i))))"
proof -
  have one: "buildInstructions lib pk tok =
           Inr ((if \<exists>b. balance tok = Some b \<and> 0 < b
                 then [BurnInstruction account mintPubkey pk (the (balance tok)) [] pid]
                 else [])
                @ [CloseAccountInstruction account pk pk [] pid])"
    using assms
    by (cases "balance tok")
       (auto simp: buildInstructions_def Let_def TOKEN_2022_ADDRESS_def
          createBurnInstruction_def createCloseAccountInstruction_def)
  have prog: "pid = TOKEN_2022_PROGRAM_ID \<longleftrightarrow>
      tokenProgram tok = Some ''TokenzQdBNbLqP5VEhdkAS6EPFLC1PHnBqCXEpPxuEb''"
    using assms(1) by simp
  have every: "length tis = length tokens \<and>
            (\<forall>i < length tokens.
               fst (tis ! i) = tokens ! i \<and>
               buildInstructions lib pk (tokens ! i) = Inr (snd (tis ! i)))"
    if "buildAll lib pk tokens = Inr tis" for tis
    using buildAll_length [OF that] buildAll_nth [OF that] by simp
  from one prog every show ?thesis by blast
qed

theorem buildInstructions_shape_witness:
  "newPublicKey okWeb3 (mint (dust ''m1'')) = Inr (Pubkey ''m1'') \<and>
   getAssociatedTokenAddressSync okWeb3 (Pubkey ''m1'') ownerKey False TOKEN_PROGRAM_ID
     = Inr (Pubkey ''ata-m1'') \<and>
   buildInstructions okWeb3 ownerKey (dust ''m1'') =
     Inr [BurnInstruction (Pubkey ''ata-m1'') (Pubkey ''m1'') ownerKey 1 [] TOKEN_PROGRAM_ID,
          CloseAccountInstruction (Pubkey ''ata-m1'') ownerKey ownerKey [] TOKEN_PROGRAM_ID] \<and>
   newPublicKey okWeb3 (mint token2022Empty) = Inr (Pubkey ''m2'') \<and>
   getAssociatedTokenAddressSync okWeb3 (Pubkey ''m2'') ownerKey False TOKEN_2022_PROGRAM_ID
     = Inr (Pubkey ''ata-m2'') \<and>
   buildInstructions okWeb3 ownerKey token2022Empty =
     Inr [CloseAccountInstruction (Pubkey ''ata-m2'') ownerKey ownerKey [] TOKEN_2022_PROGRAM_ID]"
proof -
  have p1: "TOKEN_PROGRAM_ID =
      (if tokenProgram (dust ''m1'') = Some ''TokenzQdBNbLqP5VEhdkAS6EPFLC1PHnBqCXEpPxuEb''
       then TOKEN_2022_PROGRAM_ID else TOKEN_PROGRAM_ID)"
    by (simp add: dust_def)
  have k1: "newPublicKey okWeb3 (mint (dust ''m1'')) = Inr (Pubkey ''m1'')"
    by (simp add: okWeb3_def dust_def)
  have a1: "getAssociatedTokenAddressSync okWeb3 (Pubkey ''m1'') ownerKey False TOKEN_PROGRAM_ID
      = Inr (Pubkey ''ata-m1'')"
    by (simp add: okWeb3_def)
  have p2: "TOKEN_2022_PROGRAM_ID =
      (if tokenProgram token2022Empty = Some ''TokenzQdBNbLqP5VEhdkAS6EPFLC1PHnBqCXEpPxuEb''
       then TOKEN_2022_PROGRAM_ID else TOKEN_PROGRAM_ID)"
    by (simp add: token2022Empty_def)
  have k2: "newPublicKey okWeb3 (mint token2022Empty) = Inr (Pubkey ''m2'')"
    by (simp add: okWeb3_def token2022Empty_def)
  have a2: "getAssociatedTokenAddressSync okWeb3 (Pubkey ''m2'') ownerKey False
      TOKEN_2022_PROGRAM_ID = Inr (Pubkey ''ata-m2'')"
    by (simp add: okWeb3_def)
  from buildInstructions_shape [OF p1 k1 a1, of "[]"]
  have b1: "buildInstructions okWeb3 ownerKey (dust ''m1'') =
     Inr [BurnInstruction (Pubkey ''ata-m1'') (Pubkey ''m1'') ownerKey 1 [] TOKEN_PROGRAM_ID,
          CloseAccountInstruction (Pubkey ''ata-m1'') ownerKey ownerKey [] TOKEN_PROGRAM_ID]"
    by (simp add: dust_def)
  from buildInstructions_shape [OF p2 k2 a2, of "[]"]
  have b2: "buildInstructions okWeb3 ownerKey token2022Empty =
     Inr [CloseAccountInstruction (Pubkey ''ata-m2'') ownerKey ownerKey [] TOKEN_2022_PROGRAM_ID]"
    by (simp add: token2022Empty_def)
  from k1 a1 b1 k2 a2 b2 show ?thesis by simp
qed

text \<open>
  Claim C10. \<open>closeAccounts\<close> checks its preconditions first. Without a connected wallet
  (no \<open>publicKey\<close> or no \<open>signTransaction\<close>) it returns the failure
  \<open>Wallet not connected\<close>; with a connected wallet and no token it returns the failure
  \<open>No accounts selected\<close>. In both cases the state returned is the state given: no call
  was logged (no blockhash fetch, simulation, signing or submission) and the cells
  \<open>closedMints\<close> and \<open>reclaimedSOL\<close> are unchanged.
\<close>

theorem closeAccounts_preconditions:
  "(publicKey (useWallet w) = None \<or> signTransaction (useWallet w) = None \<longrightarrow>
      closeAccounts w tokens st =
        (\<lparr>success = False, error = Some ''Wallet not connected'', txSignature = None,
          closedCount = 0, skippedCount = None, closedMints = None\<rparr>, st)) \<and>
   (publicKey (useWallet w) \<noteq> None \<and> signTransaction (useWallet w) \<noteq> None \<and> tokens = [] \<longrightarrow>
      closeAccounts w tokens st =
        (\<lparr>success = False, error = Some ''No accounts selected'', txSignature = None,
          closedCount = 0, skippedCount = None, closedMints = None\<rparr>, st))"
  by (auto simp: closeAccounts_def failed_def split: option.splits)

theorem closeAccounts_preconditions_witness:
  "publicKey (useWallet disconnectedWorld) = None \<and>
   closeAccounts disconnectedWorld sixTokens idleState =
     (\<lparr>success = False, error = Some ''Wallet not connected'', txSignature = None,
       closedCount = 0, skippedCount = None, closedMints = None\<rparr>, idleState) \<and>
   publicKey (useWallet okWorld) \<noteq> None \<and> signTransaction (useWallet okWorld) \<noteq> None \<and>
   closeAccounts okWorld [] idleState =
     (\<lparr>success = False, error = Some ''No accounts selected'', txSignature = None,
       closedCount = 0, skippedCount = None, closedMints = None\<rparr>, idleState)"
proof -
  have d: "publicKey (useWallet disconnectedWorld) = None"
    by (simp add: disconnectedWorld_def)
  have c: "publicKey (useWallet okWorld) \<noteq> None" "signTransaction (useWallet okWorld) \<noteq> None"
    by (simp_all add: okWorld_wallet)
  from closeAccounts_preconditions [of disconnectedWorld sixTokens idleState] d
  have r1: "closeAccounts disconnectedWorld sixTokens idleState =
     (\<lparr>success = False, error = Some ''Wallet not connected'', txSignature = None,
       closedCount = 0, skippedCount = None, closedMints = None\<rparr>, idleState)"
    by simp
  from closeAccounts_preconditions [of okWorld "[]" idleState] c
  have r2: "closeAccounts okWorld [] idleState =
     (\<lparr>success = False, error = Some ''No accounts selected'', txSignature = None,
       closedCount = 0, skippedCount = None, closedMints = None\<rparr>, idleState)"
    by simp
  from d c r1 r2 show ?thesis by simp
qed

section \<open>The timeline page\<close>

lemma fetchWalletHistory_calls:
  "c \<in> set (snd (fetchWalletHistory lib net a opts)) \<Longrightarrow>
     before (snd c) = before opts \<and>
     limit (snd c) = Some (case limit opts of None \<Rightarrow> 100 | Some l \<Rightarrow> l)"
  by (auto simp: fetchWalletHistory_def Let_def split: sum.splits)

lemma fetchWalletHistory_calls_length:
  "length (snd (fetchWalletHistory lib net a opts)) \<le> 1"
  by (auto simp: fetchWalletHistory_def Let_def split: sum.splits)

lemma fetchHistories_calls:
  assumes "c \<in> set (concat (map (\<lambda>(w, r). snd r) (fetchHistories lib net ws lmt cursor)))"
  shows "before (snd c) = cursor \<and> limit (snd c) = Some (perWalletLimit lmt (length ws))"
proof -
  from assms obtain w where "w \<in> set ws"
    and "c \<in> set (snd (fetchWalletHistory lib net (address w)
           \<lparr>before = cursor, limit = Some (perWalletLimit lmt (length ws))\<rparr>))"
    by (auto simp: fetchHistories_def)
  from fetchWalletHistory_calls [OF this(2)] show ?thesis by simp
qed

lemma length_concat_le:
  "(\<And>w. length (f w) \<le> 1) \<Longrightarrow> length (concat (map f ws)) \<le> length ws"
proof (induction ws)
  case Nil
  then show ?case by simp
next
  case (Cons w ws)
  from Cons.prems [of w] Cons.IH [OF Cons.prems] show ?case by simp
qed

lemma fetchHistories_calls_length:
  "length (concat (map (\<lambda>(w, r). snd r) (fetchHistories lib net ws lmt cursor))) \<le> length ws"
proof -
  have "length (concat (map (\<lambda>w. snd (fetchWalletHistory lib net (address w)
      \<lparr>before = cursor, limit = Some (perWalletLimit lmt (length ws))\<rparr>)) ws)) \<le> length ws"
    by (rule length_concat_le) (rule fetchWalletHistory_calls_length)
  then show ?thesis
    by (simp add: fetchHistories_def comp_def)
qed

lemma slice0_nonneg: "0 \<le> e \<Longrightarrow> slice0 xs e = take (nat e) xs"
  by (simp add: slice0_def Let_def min_def)

lemma fetchWalletHistory_explicit:
  "fetchWalletHistory lib net a \<lparr>before = c, limit = Some l\<rparr> =
     (case ensurePubkey lib net a of
        Inl e \<Rightarrow> ([], [])
      | Inr pubkey \<Rightarrow>
          ((case fetchParsedTransactions net pubkey \<lparr>before = c, limit = Some l\<rparr> of
              Inl e \<Rightarrow> []
            | Inr txs \<Rightarrow> txs),
           [(pubkey, \<lparr>before = c, limit = Some l\<rparr>)]))"
  by (simp add: fetchWalletHistory_def Let_def split: sum.splits)

lemma fetchWalletHistory_transactions:
  "fst (fetchWalletHistory lib net a \<lparr>before = c, limit = Some l\<rparr>) =
     (case ensurePubkey lib net a of
        Inl e \<Rightarrow> []
      | Inr pubkey \<Rightarrow>
          (case fetchParsedTransactions net pubkey \<lparr>before = c, limit = Some l\<rparr> of
             Inl e \<Rightarrow> []
           | Inr txs \<Rightarrow> txs))"
  by (simp add: fetchWalletHistory_explicit split: sum.splits)

lemma fetchWalletHistory_fetches:
  "snd (fetchWalletHistory lib net a \<lparr>before = c, limit = Some l\<rparr>) =
     (case ensurePubkey lib net a of
        Inl e \<Rightarrow> []
      | Inr pubkey \<Rightarrow> [(pubkey, \<lparr>before = c, limit = Some l\<rparr>)])"
  by (simp add: fetchWalletHistory_explicit split: sum.splits)

lemma walletP_resolves:
  "ensurePubkey okWeb3 pagedNetwork (address walletP) = Inr (address walletP)"
  by code_simp

lemma walletQ_resolves:
  "ensurePubkey okWeb3 pagedNetwork (address walletQ) = Inr (address walletQ)"
  by code_simp

lemma pagedNetwork_walletP:
  "fetchParsedTransactions pagedNetwork (address walletP) \<lparr>before = None, limit = Some 11\<rparr>
     = Inr [rawTx ''s4'' 40, rawTx ''s2'' 20]"
  "fetchParsedTransactions pagedNetwork (address walletP)
       \<lparr>before = Some ''s3'', limit = Some 11\<rparr>
     = Inr [rawTx ''s2'' 20, rawTx ''s1'' 10]"
  by (simp_all add: fetchParsedTransactions_def pagedNetwork_def okNetwork_def)

lemma pagedNetwork_walletQ:
  "fetchParsedTransactions pagedNetwork (address walletQ) \<lparr>before = None, limit = Some 11\<rparr>
     = Inr [rawTx ''s3'' 30, rawTx ''s2'' 20]"
  "fetchParsedTransactions pagedNetwork (address walletQ)
       \<lparr>before = Some ''s3'', limit = Some 11\<rparr>
     = Inr [rawTx ''s2'' 20]"
  by (simp_all add: fetchParsedTransactions_def pagedNetwork_def okNetwork_def walletP_def
        walletQ_def)

text \<open>
  Claim C6. Let \<open>limit\<close> be the caller's limit, or 50 when none is given, and let it be a
  count, that is, not negative. For every wallet list and every cursor, \<open>getTimeline\<close>
  succeeds, and its page is the first \<open>limit\<close> entries of the merge of the wallets'
  histories, where the history of a wallet is what \<open>fetchParsedTransactions\<close> returns for
  the wallet's resolved address when called with the caller's cursor as \<open>before\<close> and with
  the limit \<open>ceil(limit / number of wallets) + 10\<close> (and is empty when the address does not
  resolve or the fetch fails). The page has at most \<open>limit\<close> entries, is sorted by
  timestamp, newest first, and has no signature twice; \<open>nextCursor\<close> is the signature of
  the last entry of the page, and is undefined when the page is empty. These calls of
  \<open>fetchParsedTransactions\<close>, one for each wallet whose address resolves, in the order of
  the wallets, are the only ones made.
\<close>

theorem getTimeline_page:
  assumes "lmt = (case limitOpt of None \<Rightarrow> 50 | Some l \<Rightarrow> l)" and "0 \<le> lmt"
    and "perWallet = \<lceil>real_of_int lmt / real (length ws)\<rceil> + 10"
    and "history = (\<lambda>a. case ensurePubkey lib net a of
                            Inl e \<Rightarrow> []
                          | Inr pubkey \<Rightarrow>
                              (case fetchParsedTransactions net pubkey
                                      \<lparr>before = cursor, limit = Some perWallet\<rparr> of
                                 Inl e \<Rightarrow> []
                               | Inr txs \<Rightarrow> txs))"
    and "results = map (\<lambda>w. \<lparr>wallet = w, transactions = history (address w)\<rparr>) ws"
    and "getTimeline lib net ws limitOpt cursor = (r, fetches)"
  shows "success r \<and> error r = None \<and>
    (\<exists>txs. data r = Some txs \<and>
       txs = take (nat lmt) (mergeTransactions results) \<and>
       length txs \<le> nat lmt \<and>
       sorted_wrt (\<lambda>a b. timestamp b \<le> timestamp a) txs \<and>
       distinct (map signature txs) \<and>
       nextCursor r = (if txs = [] then None else Some (signature (last txs)))) \<and>
    fetches = concat (map (\<lambda>w. case ensurePubkey lib net (address w) of
                                  Inl e \<Rightarrow> []
                                | Inr pubkey \<Rightarrow>
                                    [(pubkey, \<lparr>before = cursor, limit = Some perWallet\<rparr>)]) ws) \<and>
    (\<forall>c \<in> set fetches. before (snd c) = cursor \<and> limit (snd c) = Some perWallet) \<and>
    length fetches \<le> length ws"
proof -
  let ?txs = "take (nat lmt) (mergeTransactions results)"
  have pw: "perWalletLimit lmt (length ws) = perWallet"
    by (simp add: perWalletLimit_def assms(3))
  have res: "map (\<lambda>(w, r). \<lparr>wallet = w, transactions = fst r\<rparr>)
               (fetchHistories lib net ws lmt cursor) = results"
    by (simp add: fetchHistories_def pw comp_def fetchWalletHistory_transactions
          assms(4) assms(5))
  have log: "concat (map (\<lambda>(w, r). snd r) (fetchHistories lib net ws lmt cursor)) =
      concat (map (\<lambda>w. case ensurePubkey lib net (address w) of
                            Inl e \<Rightarrow> []
                          | Inr pubkey \<Rightarrow>
                              [(pubkey, \<lparr>before = cursor, limit = Some perWallet\<rparr>)]) ws)"
    by (simp add: fetchHistories_def pw comp_def fetchWalletHistory_fetches)
  have "getTimeline lib net ws limitOpt cursor =
      (\<lparr>success = True, error = None, data = Some ?txs,
        nextCursor = (if 0 < length ?txs then Some (signature (last ?txs)) else None)\<rparr>,
       concat (map (\<lambda>(w, r). snd r) (fetchHistories lib net ws lmt cursor)))"
    unfolding getTimeline_def getTimeline_try_def assms(1) [symmetric] Let_def
      slice0_nonneg [OF assms(2)] res
    by simp
  with assms(6)
  have r: "r = \<lparr>success = True, error = None, data = Some ?txs,
             nextCursor = (if 0 < length ?txs then Some (signature (last ?txs)) else None)\<rparr>"
    and f: "fetches = concat (map (\<lambda>(w, r). snd r) (fetchHistories lib net ws lmt cursor))"
    by simp_all
  have srt: "sorted_wrt (\<lambda>a b. timestamp b \<le> timestamp a) ?txs"
    using mergeTransactions_sorted [of results] by (rule sorted_wrt_take)
  have dst: "distinct (map signature ?txs)"
    using mergeTransactions_distinct [of results] by (simp add: take_map [symmetric])
  have calls: "before (snd c) = cursor \<and> limit (snd c) = Some perWallet"
    if "c \<in> set fetches" for c
    using fetchHistories_calls [of c lib net ws lmt cursor] that unfolding f pw by simp
  have n: "length fetches \<le> length ws"
    unfolding f by (rule fetchHistories_calls_length)
  have page: "data r = Some ?txs \<and> length ?txs \<le> nat lmt \<and>
       nextCursor r = (if ?txs = [] then None else Some (signature (last ?txs)))"
    by (simp add: r)
  from f log have fl: "fetches = concat (map (\<lambda>w. case ensurePubkey lib net (address w) of
                            Inl e \<Rightarrow> []
                          | Inr pubkey \<Rightarrow>
                              [(pubkey, \<lparr>before = cursor, limit = Some perWallet\<rparr>)]) ws)"
    by simp
  have "success r \<and> error r = None"
    by (simp add: r)
  moreover have "\<exists>txs. data r = Some txs \<and>
       txs = take (nat lmt) (mergeTransactions results) \<and>
       length txs \<le> nat lmt \<and>
       sorted_wrt (\<lambda>a b. timestamp b \<le> timestamp a) txs \<and>
       distinct (map signature txs) \<and>
       nextCursor r = (if txs = [] then None else Some (signature (last txs)))"
    using page srt dst by blast
  moreover note fl
  moreover have "\<forall>c \<in> set fetches. before (snd c) = cursor \<and> limit (snd c) = Some perWallet"
    using calls by blast
  ultimately show ?thesis
    using n by blast
qed


theorem getTimeline_page_witness:
  "(2::int) = (case Some 2 of None \<Rightarrow> 50 | Some l \<Rightarrow> l) \<and> (0::int) \<le> 2 \<and>
   \<lceil>real_of_int 2 / real (length [walletP, walletQ])\<rceil> + 10 = 11 \<and>
   fetchParsedTransactions pagedNetwork (address walletP) \<lparr>before = None, limit = Some 11\<rparr>
     = Inr [rawTx ''s4'' 40, rawTx ''s2'' 20] \<and>
   fetchParsedTransactions pagedNetwork (address walletP)
       \<lparr>before = Some ''s3'', limit = Some 11\<rparr>
     = Inr [rawTx ''s2'' 20, rawTx ''s1'' 10] \<and>
   success (fst (getTimeline okWeb3 pagedNetwork [walletP, walletQ] (Some 2) None)) \<and>
   map_option (map signature)
     (data (fst (getTimeline okWeb3 pagedNetwork [walletP, walletQ] (Some 2) None)))
     = Some [''s4'', ''s3''] \<and>
   nextCursor (fst (getTimeline okWeb3 pagedNetwork [walletP, walletQ] (Some 2) None))
     = Some ''s3'' \<and>
   map_option (map signature)
     (data (fst (getTimeline okWeb3 pagedNetwork [walletP, walletQ] (Some 2) (Some ''s3''))))
     = Some [''s2'', ''s1''] \<and>
   nextCursor (fst (getTimeline okWeb3 pagedNetwork [walletP, walletQ] (Some 2) (Some ''s3'')))
     = Some ''s1'' \<and>
   snd (getTimeline okWeb3 pagedNetwork [walletP, walletQ] (Some 2) (Some ''s3'')) =
     [(address walletP, \<lparr>before = Some ''s3'', limit = Some 11\<rparr>),
      (address walletQ, \<lparr>before = Some ''s3'', limit = Some 11\<rparr>)]"
proof -
  let ?first = "getTimeline okWeb3 pagedNetwork [walletP, walletQ] (Some 2) None"
  let ?second = "getTimeline okWeb3 pagedNetwork [walletP, walletQ] (Some 2) (Some ''s3'')"
  let ?page1 = "[\<lparr>wallet = walletP, transactions = [rawTx ''s4'' 40, rawTx ''s2'' 20]\<rparr>,
                 \<lparr>wallet = walletQ, transactions = [rawTx ''s3'' 30, rawTx ''s2'' 20]\<rparr>]"
  let ?page2 = "[\<lparr>wallet = walletP, transactions = [rawTx ''s2'' 20, rawTx ''s1'' 10]\<rparr>,
                 \<lparr>wallet = walletQ, transactions = [rawTx ''s2'' 20]\<rparr>]"
  have l: "(2::int) = (case Some 2 of None \<Rightarrow> 50 | Some l \<Rightarrow> l)" and p: "(0::int) \<le> 2"
    by simp_all
  have first: "?first = (fst ?first, snd ?first)" and second: "?second = (fst ?second, snd ?second)"
    by simp_all
  note T1 = getTimeline_page [OF l p refl refl refl first]
  note T2 = getTimeline_page [OF l p refl refl refl second]
  have pw: "\<lceil>real_of_int 2 / real (length [walletP, walletQ])\<rceil> + 10 = 11"
    by simp
  note facts = pw walletP_resolves walletQ_resolves pagedNetwork_walletP pagedNetwork_walletQ
  from T1 have s1: "success (fst ?first)"
    and d1: "data (fst ?first) = Some (take (nat 2) (mergeTransactions ?page1))"
    and n1: "nextCursor (fst ?first) =
        (if take (nat 2) (mergeTransactions ?page1) = [] then None
         else Some (signature (last (take (nat 2) (mergeTransactions ?page1)))))"
    unfolding facts list.map sum.case by auto
  from T2 have d2: "data (fst ?second) = Some (take (nat 2) (mergeTransactions ?page2))"
    and n2: "nextCursor (fst ?second) =
        (if take (nat 2) (mergeTransactions ?page2) = [] then None
         else Some (signature (last (take (nat 2) (mergeTransactions ?page2)))))"
    and f2: "snd ?second =
        [(address walletP, \<lparr>before = Some ''s3'', limit = Some 11\<rparr>),
         (address walletQ, \<lparr>before = Some ''s3'', limit = Some 11\<rparr>)]"
    unfolding facts list.map sum.case by auto
  have sigs1: "map signature (take (nat 2) (mergeTransactions ?page1)) = [''s4'', ''s3'']"
    by code_simp
  have ne1: "take (nat 2) (mergeTransactions ?page1) \<noteq> []"
    using sigs1 by auto
  have lst1: "signature (last (take (nat 2) (mergeTransactions ?page1))) = ''s3''"
    using sigs1 ne1 by (simp add: last_map [symmetric] del: take_eq_Nil)
  have sigs2: "map signature (take (nat 2) (mergeTransactions ?page2)) = [''s2'', ''s1'']"
    by code_simp
  have ne2: "take (nat 2) (mergeTransactions ?page2) \<noteq> []"
    using sigs2 by auto
  have lst2: "signature (last (take (nat 2) (mergeTransactions ?page2))) = ''s1''"
    using sigs2 ne2 by (simp add: last_map [symmetric] del: take_eq_Nil)
  from l p pw pagedNetwork_walletP s1 d1 n1 ne1 lst1 sigs1 d2 n2 ne2 lst2 sigs2 f2
  show ?thesis
    by simp
qed

section \<open>Server actions return result objects\<close>

lemma errorMessage_empty: "errorMessage e fb = [] \<Longrightarrow> fb \<noteq> [] \<Longrightarrow> e = Error []"
  by (cases e) (simp_all add: errorMessage_def)

text \<open>
  Claim C5 (as amended). Each of the five server actions is a total function that returns
  a result object: \<open>success = true\<close> with no error, or \<open>success = false\<close> with an error
  string. An exception raised in the \<open>try\<close> block is caught, and the error string is then
  the message of the caught \<open>Error\<close>, or the action's fallback text when the thrown value
  is not an \<open>Error\<close>. The error string is therefore empty only when the caught \<open>Error\<close>
  has an empty message (or, for \<open>simulateTransaction\<close>, when the JSON text of the
  simulation error is empty). In the embedding nothing in the \<open>try\<close> block of
  \<open>getTimeline\<close> throws, since \<open>fetchWalletHistory\<close> catches for itself.
\<close>

theorem server_actions_return_results:
  "resultObject (getRecentBlockhash conn) \<and>
   resultObject (simulateTransaction lib conn tx) \<and>
   resultObject (sendTransaction conn tx) \<and>
   resultObject (getAccountInfo net a) \<and>
   resultObject (fst (getTimeline lib net ws limitOpt cursor)) \<and>
   (\<forall>e. getLatestBlockhash conn = Inl e \<longrightarrow>
      \<not> success (getRecentBlockhash conn) \<and>
      error (getRecentBlockhash conn) = Some (errorMessage e ''Failed to get blockhash'')) \<and>
   (\<forall>e. simulateTransaction_try lib conn tx = Inl e \<longrightarrow>
      \<not> success (simulateTransaction lib conn tx) \<and>
      error (simulateTransaction lib conn tx) = Some (errorMessage e ''Simulation failed'')) \<and>
   (\<forall>e. sendTransaction_try conn tx = Inl e \<longrightarrow>
      \<not> success (sendTransaction conn tx) \<and>
      error (sendTransaction conn tx) = Some (errorMessage e ''Failed to send transaction'')) \<and>
   (\<forall>e. getAccountInfo_try net a = Inl e \<longrightarrow>
      \<not> success (getAccountInfo net a) \<and>
      error (getAccountInfo net a) = Some (errorMessage e ''Failed to fetch account info'')) \<and>
   (error (getRecentBlockhash conn) = Some [] \<longrightarrow> getLatestBlockhash conn = Inl (Error [])) \<and>
   (error (simulateTransaction lib conn tx) = Some [] \<longrightarrow>
      simulateTransaction_try lib conn tx = Inl (Error []) \<or>
      simulateTransaction_try lib conn tx = Inr \<lparr>success = False, error = Some []\<rparr>) \<and>
   (error (sendTransaction conn tx) = Some [] \<longrightarrow> sendTransaction_try conn tx = Inl (Error [])) \<and>
   (error (getAccountInfo net a) = Some [] \<longrightarrow> postGetAccountInfo net a = Inl (Error []))"
proof -
  have bh: "resultObject (getRecentBlockhash conn)"
    by (simp add: resultObject_def getRecentBlockhash_def split: sum.splits)
  have sim_try: "resultObject r" if "simulateTransaction_try lib conn tx = Inr r" for r
    using that
    by (auto simp: simulateTransaction_try_def resultObject_def split: sum.splits option.splits)
  have sim: "resultObject (simulateTransaction lib conn tx)"
    using sim_try
    by (cases "simulateTransaction_try lib conn tx")
       (simp_all add: simulateTransaction_def resultObject_def)
  have send_try: "resultObject r" if "sendTransaction_try conn tx = Inr r" for r
    using that
    by (auto simp: sendTransaction_try_def resultObject_def split: sum.splits)
  have send: "resultObject (sendTransaction conn tx)"
    using send_try
    by (cases "sendTransaction_try conn tx")
       (simp_all add: sendTransaction_def resultObject_def)
  have acc_try: "resultObject r" if "getAccountInfo_try net a = Inr r" for r
    using that
    by (auto simp: getAccountInfo_try_def resultObject_def split: sum.splits option.splits)
  have acc: "resultObject (getAccountInfo net a)"
    using acc_try
    by (cases "getAccountInfo_try net a")
       (simp_all add: getAccountInfo_def resultObject_def)
  have tl_ok: "success (fst (getTimeline lib net ws limitOpt cursor))"
    and tl_err: "error (fst (getTimeline lib net ws limitOpt cursor)) = None"
    by (simp_all add: getTimeline_def getTimeline_try_def Let_def)
  have tl: "resultObject (fst (getTimeline lib net ws limitOpt cursor))"
    using tl_ok tl_err by (simp add: resultObject_def)
  have bh_e: "\<not> success (getRecentBlockhash conn) \<and>
      error (getRecentBlockhash conn) = Some (errorMessage e ''Failed to get blockhash'')"
    if "getLatestBlockhash conn = Inl e" for e
    using that by (simp add: getRecentBlockhash_def)
  have sim_e: "\<not> success (simulateTransaction lib conn tx) \<and>
      error (simulateTransaction lib conn tx) = Some (errorMessage e ''Simulation failed'')"
    if "simulateTransaction_try lib conn tx = Inl e" for e
    using that by (simp add: simulateTransaction_def)
  have send_e: "\<not> success (sendTransaction conn tx) \<and>
      error (sendTransaction conn tx) = Some (errorMessage e ''Failed to send transaction'')"
    if "sendTransaction_try conn tx = Inl e" for e
    using that by (simp add: sendTransaction_def)
  have acc_e: "\<not> success (getAccountInfo net a) \<and>
      error (getAccountInfo net a) = Some (errorMessage e ''Failed to fetch account info'')"
    if "getAccountInfo_try net a = Inl e" for e
    using that by (simp add: getAccountInfo_def)
  have bh_0: "getLatestBlockhash conn = Inl (Error [])"
    if "error (getRecentBlockhash conn) = Some []"
  proof (cases "getLatestBlockhash conn")
    case (Inl e)
    with that have "errorMessage e ''Failed to get blockhash'' = []"
      by (simp add: getRecentBlockhash_def)
    then have "e = Error []" by (rule errorMessage_empty) simp
    with Inl show ?thesis by simp
  next
    case (Inr i)
    with that show ?thesis by (simp add: getRecentBlockhash_def)
  qed
  have sim_0: "simulateTransaction_try lib conn tx = Inl (Error []) \<or>
      simulateTransaction_try lib conn tx = Inr \<lparr>success = False, error = Some []\<rparr>"
    if "error (simulateTransaction lib conn tx) = Some []"
  proof (cases "simulateTransaction_try lib conn tx")
    case (Inl e)
    with that have "errorMessage e ''Simulation failed'' = []"
      by (simp add: simulateTransaction_def)
    then have "e = Error []" by (rule errorMessage_empty) simp
    with Inl show ?thesis by simp
  next
    case (Inr r)
    with that have e: "error r = Some []" by (simp add: simulateTransaction_def)
    from sim_try [OF Inr] e have "\<not> success r" by (simp add: resultObject_def)
    with e have "r = \<lparr>success = False, error = Some []\<rparr>" by simp
    with Inr show ?thesis by simp
  qed
  have send_0: "sendTransaction_try conn tx = Inl (Error [])"
    if "error (sendTransaction conn tx) = Some []"
  proof (cases "sendTransaction_try conn tx")
    case (Inl e)
    with that have "errorMessage e ''Failed to send transaction'' = []"
      by (simp add: sendTransaction_def)
    then have "e = Error []" by (rule errorMessage_empty) simp
    with Inl show ?thesis by simp
  next
    case (Inr r)
    with that have e: "error r = Some []" by (simp add: sendTransaction_def)
    from Inr have "error r = None"
      by (auto simp: sendTransaction_try_def split: sum.splits)
    with e show ?thesis by simp
  qed
  have acc_0: "postGetAccountInfo net a = Inl (Error [])"
    if "error (getAccountInfo net a) = Some []"
  proof (cases "getAccountInfo_try net a")
    case (Inl e)
    with that have "errorMessage e ''Failed to fetch account info'' = []"
      by (simp add: getAccountInfo_def)
    then have e: "e = Error []" by (rule errorMessage_empty) simp
    from Inl e show ?thesis
      by (auto simp: getAccountInfo_try_def rpcCall_getAccountInfo_def opt_str_or_def
          str_or_def split: sum.splits option.splits if_splits)
  next
    case (Inr r)
    with that have e: "error r = Some []" by (simp add: getAccountInfo_def)
    from Inr have "error r = None"
      by (auto simp: getAccountInfo_try_def split: sum.splits option.splits)
    with e show ?thesis by simp
  qed
  from bh sim send acc tl bh_e sim_e send_e acc_e bh_0 sim_0 send_0 acc_0
  show ?thesis by blast
qed

theorem server_actions_return_results_witness:
  "getLatestBlockhash downConnection = Inl (Error ''fetch failed'') \<and>
   error (getRecentBlockhash downConnection) = Some ''fetch failed'' \<and>
   simulateTransaction_try okWeb3 downConnection ''tx'' = Inl (Error ''fetch failed'') \<and>
   error (simulateTransaction okWeb3 downConnection ''tx'') = Some ''fetch failed'' \<and>
   sendTransaction_try downConnection ''tx'' = Inl (Error ''fetch failed'') \<and>
   error (sendTransaction downConnection ''tx'') = Some ''fetch failed'' \<and>
   getAccountInfo_try downNetwork ''A'' = Inl (Error ''fetch failed'') \<and>
   error (getAccountInfo downNetwork ''A'') = Some ''fetch failed'' \<and>
   error (getRecentBlockhash silentConnection) = Some [] \<and>
   getLatestBlockhash silentConnection = Inl (Error []) \<and>
   error (simulateTransaction okWeb3 silentConnection ''tx'') = Some [] \<and>
   simulateTransaction_try okWeb3 silentConnection ''tx'' = Inl (Error []) \<and>
   error (sendTransaction silentConnection ''tx'') = Some [] \<and>
   sendTransaction_try silentConnection ''tx'' = Inl (Error []) \<and>
   error (getAccountInfo silentNetwork ''A'') = Some [] \<and>
   postGetAccountInfo silentNetwork ''A'' = Inl (Error []) \<and>
   success (getRecentBlockhash okConnection)"
proof -
  note D = server_actions_return_results
    [of downConnection okWeb3 "''tx''" downNetwork "''A''" "[]" None None]
  note S = server_actions_return_results
    [of silentConnection okWeb3 "''tx''" silentNetwork "''A''" "[]" None None]
  note K = server_actions_return_results
    [of okConnection okWeb3 "''tx''" okNetwork "''A''" "[]" None None]
  have d1: "getLatestBlockhash downConnection = Inl (Error ''fetch failed'')"
    by (simp add: downConnection_def)
  have d2: "simulateTransaction_try okWeb3 downConnection ''tx'' = Inl (Error ''fetch failed'')"
    by code_simp
  have d3: "sendTransaction_try downConnection ''tx'' = Inl (Error ''fetch failed'')"
    by code_simp
  have d4: "getAccountInfo_try downNetwork ''A'' = Inl (Error ''fetch failed'')"
    by code_simp
  have m: "errorMessage (Error ''fetch failed'') fb = ''fetch failed''" for fb
    by (simp add: errorMessage_def)
  from D d1 d2 d3 d4
  have e1: "error (getRecentBlockhash downConnection) = Some ''fetch failed''"
    and e2: "error (simulateTransaction okWeb3 downConnection ''tx'') = Some ''fetch failed''"
    and e3: "error (sendTransaction downConnection ''tx'') = Some ''fetch failed''"
    and e4: "error (getAccountInfo downNetwork ''A'') = Some ''fetch failed''"
    by (simp_all add: m)
  have s1: "error (getRecentBlockhash silentConnection) = Some []"
    by code_simp
  have s2: "error (simulateTransaction okWeb3 silentConnection ''tx'') = Some []"
    by code_simp
  have s3: "error (sendTransaction silentConnection ''tx'') = Some []"
    by code_simp
  have s4: "error (getAccountInfo silentNetwork ''A'') = Some []"
    by code_simp
  have s2': "simulateTransaction_try okWeb3 silentConnection ''tx'' \<noteq>
      Inr \<lparr>success = False, error = Some []\<rparr>"
    by code_simp
  from S s1 have c1: "getLatestBlockhash silentConnection = Inl (Error [])" by blast
  from S s2 s2' have c2: "simulateTransaction_try okWeb3 silentConnection ''tx'' = Inl (Error [])"
    by blast
  from S s3 have c3: "sendTransaction_try silentConnection ''tx'' = Inl (Error [])" by blast
  from S s4 have c4: "postGetAccountInfo silentNetwork ''A'' = Inl (Error [])" by blast
  have "error (getRecentBlockhash okConnection) = None"
    by code_simp
  with K have k: "success (getRecentBlockhash okConnection)"
    by (simp add: resultObject_def)
  from d1 e1 d2 e2 d3 e3 d4 e4 s1 c1 s2 c2 s3 c3 s4 c4 k show ?thesis
    by simp
qed

text \<open>
  Claim C5 as stated promises a non-empty error string on every failure. The handlers
  pass the caught message on as it is: a connection whose \<open>getLatestBlockhash\<close> rejects
  with an \<open>Error\<close> of empty message makes \<open>getRecentBlockhash\<close> and \<open>sendTransaction\<close>
  return \<open>success = false\<close> with the empty string as error.
\<close>

theorem server_actions_empty_error_counterexample:
  "getLatestBlockhash silentConnection = Inl (Error []) \<and>
   getRecentBlockhash silentConnection = \<lparr>success = False, error = Some [], data = None\<rparr> \<and>
   sendTransaction silentConnection ''tx'' =
     \<lparr>success = False, error = Some [], txSignature = None\<rparr>"
  by code_simp

end
